theory Spec2Isabelle
  imports Main
begin
section \<open>Capability resolution (multiServiceAccessory.ts)\<close>

text \<open>
  The service classes an accessory can instantiate. Only the constructor that is
  chosen matters for resolution; what each service does afterwards lives in the
  service classes themselves.
\<close>

datatype service_ctor =
    DoorService | LockService | ZigbangSmartDoorlockService | SwitchService
  | WindowCoveringService | MotionService | LeakDetectorService | SmokeDetectorService
  | CarbonMonoxideDetectorService | OccupancySensorService | TemperatureService
  | HumidityService | LightSensorService | ContactSensorService
  | StatelessProgrammableSwitchService | Battery | ValveService | ACLightingService
  | AirConditionerService | FanSwitchLevelService | FanSpeedService | LightService
  | ThermostatService | TelevisionService | VolumeSliderService

text \<open>
  A service instance as \<open>new serviceConstructor(platform, accessory, componentId,
  allCapabilities, this, name, component)\<close> builds it: the constructor, the component it
  is bound to and the capability list it was given.
\<close>

record service_instance =
  svc_ctor :: service_ctor
  svc_componentId :: string
  svc_capabilities :: "string list"

text \<open>
  \<open>capabilityMap\<close>: an object literal; \<open>Object.keys\<close> lists its (non-numeric) keys in
  declaration order, so it is an association list.
\<close>

definition capabilityMap :: "(string \<times> service_ctor) list" where
  "capabilityMap =
    [(''doorControl'', DoorService),
     (''lock'', LockService),
     (''absoluteweather46907.lock'', ZigbangSmartDoorlockService),
     (''switch'', SwitchService),
     (''windowShadeLevel'', WindowCoveringService),
     (''windowShade'', WindowCoveringService),
     (''motionSensor'', MotionService),
     (''waterSensor'', LeakDetectorService),
     (''smokeDetector'', SmokeDetectorService),
     (''carbonMonoxideDetector'', CarbonMonoxideDetectorService),
     (''presenceSensor'', OccupancySensorService),
     (''temperatureMeasurement'', TemperatureService),
     (''relativeHumidityMeasurement'', HumidityService),
     (''illuminanceMeasurement'', LightSensorService),
     (''contactSensor'', ContactSensorService),
     (''button'', StatelessProgrammableSwitchService),
     (''battery'', Battery),
     (''valve'', ValveService),
     (''samsungce.airConditionerLighting'', ACLightingService)]"

text \<open>
  An entry of \<open>comboCapabilityMap\<close>. Only the first entry declares
  \<open>optionalCapabilities\<close>; the others leave the key out (\<open>None\<close>), and the caller reads
  \<open>entry.optionalCapabilities || []\<close>.
\<close>

record combo_entry =
  entry_capabilities :: "string list"
  entry_optionalCapabilities :: "string list option"
  entry_service :: service_ctor

definition comboCapabilityMap :: "combo_entry list" where
  "comboCapabilityMap =
    [\<lparr>entry_capabilities =
        [''switch'', ''airConditionerMode'', ''airConditionerFanMode'',
         ''thermostatCoolingSetpoint'', ''temperatureMeasurement''],
      entry_optionalCapabilities =
        Some [''fanOscillationMode'', ''relativeHumidityMeasurement'',
              ''custom.airConditionerOptionalMode''],
      entry_service = AirConditionerService\<rparr>,
     \<lparr>entry_capabilities = [''switch'', ''fanSpeed'', ''switchLevel''],
      entry_optionalCapabilities = None, entry_service = FanSwitchLevelService\<rparr>,
     \<lparr>entry_capabilities = [''switch'', ''fanSpeed''],
      entry_optionalCapabilities = None, entry_service = FanSpeedService\<rparr>,
     \<lparr>entry_capabilities = [''switch'', ''switchLevel''],
      entry_optionalCapabilities = None, entry_service = LightService\<rparr>,
     \<lparr>entry_capabilities = [''switch'', ''colorControl''],
      entry_optionalCapabilities = None, entry_service = LightService\<rparr>,
     \<lparr>entry_capabilities = [''switch'', ''colorTemperature''],
      entry_optionalCapabilities = None, entry_service = LightService\<rparr>,
     \<lparr>entry_capabilities = [''switch'', ''valve''],
      entry_optionalCapabilities = None, entry_service = ValveService\<rparr>,
     \<lparr>entry_capabilities =
        [''temperatureMeasurement'', ''thermostatMode'', ''thermostatHeatingSetpoint'',
         ''thermostatCoolingSetpoint''],
      entry_optionalCapabilities = None, entry_service = ThermostatService\<rparr>,
     \<lparr>entry_capabilities = [''temperatureMeasurement'', ''thermostatHeatingSetpoint''],
      entry_optionalCapabilities = None, entry_service = ThermostatService\<rparr>,
     \<lparr>entry_capabilities = [''windowShade'', ''windowShadeLevel''],
      entry_optionalCapabilities = None, entry_service = WindowCoveringService\<rparr>,
     \<lparr>entry_capabilities = [''windowShade'', ''switchLevel''],
      entry_optionalCapabilities = None, entry_service = WindowCoveringService\<rparr>]"

text \<open>
  The keys of the platform configuration that resolution and polling read. A key that
  is absent from the configuration is \<open>None\<close>.
\<close>

record platform_config =
  enableTelevisionService :: "bool option"
  removeLegacySwitchForTV :: "bool option"
  registerVolumeSlider :: "bool option"
  ExposeACDisplayLight :: "bool option"
  WebhookToken :: "string option"

text \<open>
  What \<open>addComponent\<close> reads from the Television and volume slider service classes and
  from the device record. These classes are not among the sources at hand, so their
  static tables and predicates are parameters of the resolution:
  \<open>TelevisionService.getTvCapabilities()\<close>,
  \<open>TelevisionService.isTelevisionDevice(accessory.context.device)\<close>,
  \<open>VolumeSliderService.getVolumeSliderCapabilities()\<close> and
  \<open>VolumeSliderService.supportsVolumeSlider(capabilities)\<close>.
\<close>

record tv_tables =
  getTvCapabilities :: "string list"
  isTelevisionDevice :: bool
  getVolumeSliderCapabilities :: "string list"
  supportsVolumeSlider :: "string list \<Rightarrow> bool"

text \<open>
  \<open>registerServiceIfMatchesCapabilities\<close>: \<open>this.services.push\<close> is the first component
  of the result, the returned list of capabilities still to cover the second.
\<close>

definition registerServiceIfMatchesCapabilities ::
  "string \<Rightarrow> string list \<Rightarrow> string list \<Rightarrow> string list \<Rightarrow> service_ctor \<Rightarrow>
   service_instance list \<Rightarrow> service_instance list \<times> string list" where
  "registerServiceIfMatchesCapabilities componentId capabilitiesToCover caps optionalCaps
      serviceConstructor services =
    (if \<not> list_all (\<lambda>e. e \<in> set capabilitiesToCover) caps
     then (services, capabilitiesToCover)
     else
       let allCapabilities = caps @ filter (\<lambda>e. e \<in> set capabilitiesToCover) optionalCaps
       in (services @ [\<lparr>svc_ctor = serviceConstructor, svc_componentId = componentId,
                         svc_capabilities = allCapabilities\<rparr>],
           filter (\<lambda>e. e \<notin> set allCapabilities) capabilitiesToCover))"

text \<open>
  The comparison function handed to \<open>sort\<close>:
  \<open>(a, b) => a.capabilities.length > b.capabilities.length ? -1 : 1\<close>.
\<close>

definition comboCompare :: "combo_entry \<Rightarrow> combo_entry \<Rightarrow> int" where
  "comboCompare a b =
    (if length (entry_capabilities a) > length (entry_capabilities b) then - 1 else 1)"

text \<open>
  \<open>Array.prototype.sort(comparefn)\<close> on a short array, as Node's engine runs it: the
  elements are taken from left to right and each is inserted into the already ordered
  prefix, before the first element below which the comparison function puts it
  (\<open>comparefn(element, other) < 0\<close>). An element that compares \<open>\<ge> 0\<close> with everything
  stays behind all of them. The engine looks for that place by bisection, which on an
  ordered prefix finds the same place as the scan from the left written here. The
  comparison function above never answers 0 and answers 1 both ways round for two
  entries of the same size, so what \<open>sort\<close> does with it is the engine's own choice;
  this is the choice of the engine the plugin runs on.
\<close>

fun insertBy :: "('a \<Rightarrow> 'a \<Rightarrow> int) \<Rightarrow> 'a \<Rightarrow> 'a list \<Rightarrow> 'a list" where
  "insertBy cmp x [] = [x]"
| "insertBy cmp x (y # ys) = (if cmp x y < 0 then x # y # ys else y # insertBy cmp x ys)"

definition sortBy :: "('a \<Rightarrow> 'a \<Rightarrow> int) \<Rightarrow> 'a list \<Rightarrow> 'a list" where
  "sortBy cmp xs = foldl (\<lambda>acc x. insertBy cmp x acc) [] xs"

text \<open>
  The Television branch of \<open>addComponent\<close> (the block guarded by
  \<open>isTelevisionEnabled && componentId === 'main' && this.isTelevisionDevice()\<close>),
  entered with \<open>capabilitiesToCover = [...capabilities]\<close>.
\<close>

definition televisionBranch ::
  "platform_config \<Rightarrow> tv_tables \<Rightarrow> string \<Rightarrow> string list \<Rightarrow> service_instance list \<Rightarrow>
   service_instance list \<times> string list" where
  "televisionBranch config tv componentId capabilities services =
    (let capabilitiesToCover = capabilities;
         isTelevisionEnabled = (enableTelevisionService config \<noteq> Some False);
         removeLegacySwitch = (removeLegacySwitchForTV config = Some True)
     in
     if isTelevisionEnabled \<and> componentId = ''main'' \<and> isTelevisionDevice tv then
       let tvCapabilities = filter (\<lambda>cap. cap \<in> set capabilities) (getTvCapabilities tv)
       in
       if length tvCapabilities > 0 then
         let services1 = services @ [\<lparr>svc_ctor = TelevisionService,
                 svc_componentId = componentId, svc_capabilities = tvCapabilities\<rparr>];
             toCover1 = filter (\<lambda>cap. cap \<notin> set tvCapabilities) capabilitiesToCover;
             toCover2 =
               (if removeLegacySwitch \<and> ''switch'' \<in> set tvCapabilities then toCover1
                else if ''switch'' \<in> set tvCapabilities then toCover1 @ [''switch'']
                else toCover1);
             registerVolume = (registerVolumeSlider config = Some True)
         in
         if registerVolume \<and> componentId = ''main'' \<and> supportsVolumeSlider tv capabilities then
           let volumeSliderCapabilities =
                 filter (\<lambda>cap. cap \<in> set capabilities) (getVolumeSliderCapabilities tv)
           in
           if length volumeSliderCapabilities > 0 then
             (services1 @ [\<lparr>svc_ctor = VolumeSliderService, svc_componentId = componentId,
                            svc_capabilities = volumeSliderCapabilities\<rparr>],
              filter (\<lambda>cap. cap \<notin> set volumeSliderCapabilities) toCover2)
           else (services1, toCover2)
         else (services1, toCover2)
       else (services, capabilitiesToCover)
     else (services, capabilitiesToCover))"

text \<open>
  The two \<open>forEach\<close> loops of \<open>addComponent\<close>: over the sorted combination table, then
  over the keys of \<open>capabilityMap\<close>, where the AC display light entry is skipped unless
  \<open>ExposeACDisplayLight\<close> is truthy.
\<close>

definition comboLoop ::
  "string \<Rightarrow> service_instance list \<times> string list \<Rightarrow> service_instance list \<times> string list" where
  "comboLoop componentId st =
    foldl (\<lambda>(services, capabilitiesToCover) entry.
        registerServiceIfMatchesCapabilities componentId capabilitiesToCover
          (entry_capabilities entry)
          (case entry_optionalCapabilities entry of Some opt \<Rightarrow> opt | None \<Rightarrow> [])
          (entry_service entry) services)
      st (sortBy comboCompare comboCapabilityMap)"

definition capabilityLoop ::
  "platform_config \<Rightarrow> string \<Rightarrow> service_instance list \<times> string list \<Rightarrow>
   service_instance list \<times> string list" where
  "capabilityLoop config componentId st =
    foldl (\<lambda>(services, capabilitiesToCover) (capability, service).
        if capability = ''samsungce.airConditionerLighting''
           \<and> ExposeACDisplayLight config \<noteq> Some True
        then (services, capabilitiesToCover)
        else registerServiceIfMatchesCapabilities componentId capabilitiesToCover
               [capability] [] service services)
      st capabilityMap"

text \<open>
  \<open>addComponent(componentId, capabilities)\<close>: the accessory's \<open>services\<close> list before
  the call is an argument, the list after it the result.
\<close>

definition addComponent ::
  "platform_config \<Rightarrow> tv_tables \<Rightarrow> string \<Rightarrow> string list \<Rightarrow> service_instance list \<Rightarrow>
   service_instance list" where
  "addComponent config tv componentId capabilities services =
    fst (capabilityLoop config componentId
          (comboLoop componentId
            (televisionBranch config tv componentId capabilities services)))"

subsection \<open>Properties of a resolution result\<close>

text \<open>
  No capability occurs in two of the given capability lists.
\<close>

fun pairwiseDisjoint :: "'a list list \<Rightarrow> bool" where
  "pairwiseDisjoint [] = True"
| "pairwiseDisjoint (x # xs) =
     (list_all (\<lambda>y. list_all (\<lambda>e. e \<notin> set y) x) xs \<and> pairwiseDisjoint xs)"

text \<open>
  The guard of the Television branch, and the two settings under which that branch
  hands nothing it has claimed to a second service: the legacy switch is removed (or
  the Television service did not claim \<open>switch\<close>), and the volume slider is either not
  registered or shares no declared capability with the Television service.
\<close>

definition televisionApplies :: "platform_config \<Rightarrow> tv_tables \<Rightarrow> string \<Rightarrow> bool" where
  "televisionApplies config tv componentId =
    (enableTelevisionService config \<noteq> Some False \<and> componentId = ''main''
      \<and> isTelevisionDevice tv)"

definition legacyFree :: "platform_config \<Rightarrow> tv_tables \<Rightarrow> string list \<Rightarrow> bool" where
  "legacyFree config tv capabilities =
    ((removeLegacySwitchForTV config = Some True
        \<or> \<not> (''switch'' \<in> set (getTvCapabilities tv) \<and> ''switch'' \<in> set capabilities))
     \<and> (registerVolumeSlider config = Some True \<longrightarrow>
          list_all (\<lambda>c. c \<in> set capabilities \<longrightarrow> c \<notin> set (getVolumeSliderCapabilities tv))
            (getTvCapabilities tv)))"

text \<open>
  One run of the table loops, seen from outside: services are only appended, each new
  one takes its capabilities from what was still to cover and leaves none of them
  behind, and the new ones do not overlap.
\<close>

definition extends ::
  "service_instance list \<times> string list \<Rightarrow> service_instance list \<times> string list \<Rightarrow> bool" where
  "extends st st' =
    (\<exists>new. fst st' = fst st @ new
       \<and> (\<forall>a \<in> set new. set (svc_capabilities a) \<subseteq> set (snd st)
                          \<and> set (svc_capabilities a) \<inter> set (snd st') = {})
       \<and> pairwiseDisjoint (map svc_capabilities new)
       \<and> set (snd st') \<subseteq> set (snd st))"


text \<open>
  A configuration with every key absent, and a Television table for the examples: a
  device recognised as a television whose Television service covers \<open>switch\<close> and
  \<open>audioVolume\<close>, the volume slider \<open>audioVolume\<close>.
\<close>

definition defaultConfig :: platform_config where
  "defaultConfig = \<lparr>enableTelevisionService = None, removeLegacySwitchForTV = None,
     registerVolumeSlider = None, ExposeACDisplayLight = None, WebhookToken = None\<rparr>"

definition sampleTv :: tv_tables where
  "sampleTv = \<lparr>getTvCapabilities = [''switch'', ''audioVolume''], isTelevisionDevice = True,
     getVolumeSliderCapabilities = [''audioVolume''],
     supportsVolumeSlider = (\<lambda>cs. ''audioVolume'' \<in> set cs)\<rparr>"

subsection \<open>The combination rules in the spec's words\<close>





section \<open>Status, commands and polling of one accessory (multiServiceAccessory.ts)\<close>

text \<open>
  The code runs on one thread. A call runs up to the point where it hands a callback to
  a promise or a timer; the callback runs later, as a step of its own, and whatever
  other calls and callbacks come in between see the fields as the earlier steps left
  them. The model makes these steps explicit. Each call of \<open>refreshStatus\<close> or
  \<open>sendCommands\<close> carries a number that names it, and what is still pending for a call
  is its task:
  \<^item> \<open>HealthCheck\<close>: the constructor's \<open>checkDeviceHealth()\<close> awaits its response;
  \<^item> \<open>StatusWaiter\<close>: \<open>waitFor(() => !this.statusQueryInProgress)\<close> is on its 250 ms timer;
  \<^item> \<open>FetchWaiter\<close>: \<open>waitFor(() => this.commandInProgress === false)\<close> is on its timer;
  \<^item> \<open>FetchStart\<close>: that \<open>waitFor\<close> returned at once and its \<open>then\<close> callback is queued;
  \<^item> \<open>FetchInFlight\<close>: \<open>axInstance.get(this.statusURL)\<close> awaits its response;
  \<^item> \<open>CommandWaiter\<close>, \<open>CommandStart\<close>, \<open>CommandInFlight\<close>: the same three stages of
    \<open>sendCommands\<close>, around \<open>axInstance.post(this.commandURL, commandBody)\<close>;
  \<^item> \<open>ProbeInFlight\<close>: the polling timer's \<open>axInstance.get(this.healthURL)\<close> awaits its
    response.
\<close>

datatype task =
    HealthCheck | StatusWaiter | FetchWaiter | FetchStart | FetchInFlight
  | CommandWaiter | CommandStart | CommandInFlight | ProbeInFlight

text \<open>The remote calls of an accessory, in the order they start and complete.\<close>

datatype remote_event =
    HealthGet nat | StatusGet nat | StatusDone nat | CommandPost nat | CommandDone nat

text \<open>
  The fields of \<open>MultiServiceAccessory\<close> that status, commands and polling use, with the
  component ids of \<open>components\<close>, followed by the bookkeeping of the model: the pending
  tasks, the log of remote calls, the values the promises of \<open>refreshStatus\<close> and
  \<open>sendCommands\<close> were resolved with, and the polling ticks that called \<open>getValue()\<close>.
\<close>

record accessory =
  components :: "string list"
  online :: bool
  deviceStatusTimestamp :: int
  failureCount :: int
  giveUpTime :: int
  commandInProgress :: bool
  lastCommandCompleted :: int
  statusQueryInProgress :: bool
  lastStatusResult :: bool
  tasks :: "nat \<rightharpoonup> task"
  remote :: "remote_event list"
  resolved :: "(nat \<times> bool) list"
  polled :: "nat list"

text \<open>
  The field initialisers and the constructor, which starts \<open>checkDeviceHealth()\<close> (task
  0) without awaiting it.
\<close>

definition newAccessory :: "string list \<Rightarrow> accessory" where
  "newAccessory ids =
    \<lparr>components = ids, online = True, deviceStatusTimestamp = 0, failureCount = 0,
     giveUpTime = 0, commandInProgress = False, lastCommandCompleted = 0,
     statusQueryInProgress = False, lastStatusResult = True,
     tasks = [0 \<mapsto> HealthCheck], remote = [HealthGet 0], resolved = [], polled = []\<rparr>"

definition isOnline :: "accessory \<Rightarrow> bool" where
  "isOnline s = online s"

text \<open>
  \<open>waitFor(condition)\<close>: an \<open>async\<close> function. When the condition holds at the call it
  returns at once, and the caller's \<open>then\<close> callback is queued; otherwise the condition
  is polled on a 250 ms timer.
\<close>

datatype wait = Resolved | Polling

definition waitFor :: "bool \<Rightarrow> wait" where
  "waitFor condition = (if condition then Resolved else Polling)"

definition resolve :: "nat \<Rightarrow> bool \<Rightarrow> accessory \<Rightarrow> accessory" where
  "resolve c v s = s\<lparr>resolved := resolved s @ [(c, v)]\<rparr>"

text \<open>
  \<open>checkDeviceHealth()\<close> returning: \<open>this.online = response.data.state === 'ONLINE'\<close>,
  or \<open>this.online = false\<close> in its \<open>catch\<close>.
\<close>

definition healthChecked :: "bool \<Rightarrow> accessory \<Rightarrow> accessory" where
  "healthChecked stateOnline s = s\<lparr>online := stateOnline, tasks := (tasks s)(0 := None)\<rparr>"

definition healthCheckFailed :: "accessory \<Rightarrow> accessory" where
  "healthCheckFailed s = s\<lparr>online := False, tasks := (tasks s)(0 := None)\<rparr>"

text \<open>
  \<open>refreshStatus()\<close> up to its first callback (lines 420 to 432 and 481); \<open>now\<close> is
  \<open>Date.now()\<close>. In the branch that waits for the query in progress, the condition of
  \<open>waitFor\<close> is false at the call.
\<close>

definition refreshStatus :: "nat \<Rightarrow> int \<Rightarrow> accessory \<Rightarrow> accessory" where
  "refreshStatus c now s =
    (if now - deviceStatusTimestamp s > 5000 then
       if statusQueryInProgress s then
         (case waitFor (\<not> statusQueryInProgress s) of
            Polling \<Rightarrow> s\<lparr>tasks := (tasks s)(c \<mapsto> StatusWaiter)\<rparr>
          | Resolved \<Rightarrow> resolve c (lastStatusResult s) s)
       else
         let s1 = s\<lparr>statusQueryInProgress := True, failureCount := 0\<rparr>
         in (case waitFor (commandInProgress s1 = False) of
               Resolved \<Rightarrow> s1\<lparr>tasks := (tasks s1)(c \<mapsto> FetchStart)\<rparr>
             | Polling \<Rightarrow> s1\<lparr>tasks := (tasks s1)(c \<mapsto> FetchWaiter)\<rparr>)
     else resolve c True s)"

text \<open>
  The callback after \<open>waitFor\<close> (lines 433 and 434): the remote status call starts.
\<close>

definition fetchStatus :: "nat \<Rightarrow> accessory \<Rightarrow> accessory" where
  "fetchStatus c s =
    s\<lparr>lastStatusResult := True, remote := remote s @ [StatusGet c],
      tasks := (tasks s)(c \<mapsto> FetchInFlight)\<rparr>"

text \<open>
  The response callback (lines 435 to 453); \<open>present\<close> lists the component ids of
  \<open>res.data.components\<close>. The timestamp is set inside the loop over the accessory's
  components, for each component the response knows.
\<close>

definition statusSucceeded :: "nat \<Rightarrow> int \<Rightarrow> string list \<Rightarrow> accessory \<Rightarrow> accessory" where
  "statusSucceeded c now present s =
    (let s1 = (if list_ex (\<lambda>componentId. componentId \<in> set present) (components s)
               then s\<lparr>deviceStatusTimestamp := now\<rparr> else s)
     in resolve c True
          (s1\<lparr>statusQueryInProgress := False, remote := remote s1 @ [StatusDone c],
              tasks := (tasks s1)(c := None)\<rparr>))"

text \<open>The \<open>catch\<close> callback (lines 465 to 478).\<close>

definition statusFailed :: "nat \<Rightarrow> int \<Rightarrow> accessory \<Rightarrow> accessory" where
  "statusFailed c now s =
    (let s1 = s\<lparr>failureCount := failureCount s + 1\<rparr>;
         s2 = (if failureCount s1 \<ge> 5 then s1\<lparr>giveUpTime := now, online := False\<rparr> else s1)
     in resolve c False
          (s2\<lparr>statusQueryInProgress := False, lastStatusResult := False,
              remote := remote s2 @ [StatusDone c], tasks := (tasks s2)(c := None)\<rparr>))"

text \<open>
  \<open>forceNextStatusRefresh()\<close> (lines 486 to 488), which services call before a read
  that must not come from the cache.
\<close>

definition forceNextStatusRefresh :: "accessory \<Rightarrow> accessory" where
  "forceNextStatusRefresh s = s\<lparr>deviceStatusTimestamp := 0\<rparr>"

text \<open>
  \<open>sendCommands(commands)\<close> up to its first callback (lines 575 to 577), the callback
  after \<open>waitFor\<close> (lines 578 and 579), and the two callbacks of the POST (lines 580 to
  583 and 591 to 593).
\<close>

definition sendCommands :: "nat \<Rightarrow> accessory \<Rightarrow> accessory" where
  "sendCommands c s =
    (case waitFor (\<not> commandInProgress s) of
       Resolved \<Rightarrow> s\<lparr>tasks := (tasks s)(c \<mapsto> CommandStart)\<rparr>
     | Polling \<Rightarrow> s\<lparr>tasks := (tasks s)(c \<mapsto> CommandWaiter)\<rparr>)"

definition postCommands :: "nat \<Rightarrow> accessory \<Rightarrow> accessory" where
  "postCommands c s =
    s\<lparr>commandInProgress := True, remote := remote s @ [CommandPost c],
      tasks := (tasks s)(c \<mapsto> CommandInFlight)\<rparr>"

definition commandSucceeded :: "nat \<Rightarrow> accessory \<Rightarrow> accessory" where
  "commandSucceeded c s =
    resolve c True
      (s\<lparr>deviceStatusTimestamp := 0, commandInProgress := False,
         remote := remote s @ [CommandDone c], tasks := (tasks s)(c := None)\<rparr>)"

definition commandFailed :: "nat \<Rightarrow> accessory \<Rightarrow> accessory" where
  "commandFailed c s =
    resolve c False
      (s\<lparr>commandInProgress := False, remote := remote s @ [CommandDone c],
         tasks := (tasks s)(c := None)\<rparr>)"

text \<open>
  \<open>AirConditionerService.sendCommandsOrFail(commands)\<close>, through which that service
  sends every command. Its first test reads the property
  \<open>this.multiServiceAccessory.isOnline\<close> without calling it: the value is the method
  itself, and a function counts as true. The second test is on the value that
  \<open>sendCommands\<close> resolves to. Both throw a \<open>HapStatusError\<close> with status
  \<open>SERVICE_COMMUNICATION_FAILURE\<close>.
\<close>

datatype js_value = JsFunction | JsBoolean bool

fun truthy :: "js_value \<Rightarrow> bool" where
  "truthy JsFunction = True"
| "truthy (JsBoolean b) = b"

datatype HAPStatus = SERVICE_COMMUNICATION_FAILURE

definition isOnlineProperty :: "accessory \<Rightarrow> js_value" where
  "isOnlineProperty s = JsFunction"

definition sendCommandsOrFail :: "nat \<Rightarrow> accessory \<Rightarrow> HAPStatus + accessory" where
  "sendCommandsOrFail c s =
    (if \<not> truthy (isOnlineProperty s) then Inl SERVICE_COMMUNICATION_FAILURE
     else Inr (sendCommands c s))"

definition sendCommandsOrFailSettled :: "bool \<Rightarrow> HAPStatus option" where
  "sendCommandsOrFailSettled sent =
    (if \<not> sent then Some SERVICE_COMMUNICATION_FAILURE else None)"

text \<open>
  The timer callback of \<open>waitFor\<close> (lines 607 to 614) for the three waiting tasks. When
  the condition holds the timer is cleared and the promise resolved; the caller's
  \<open>then\<close> callback runs before any other timer or response is handled, so it is part of
  the same step.
\<close>

definition interval :: "nat \<Rightarrow> task \<Rightarrow> accessory \<Rightarrow> accessory" where
  "interval c t s =
    (if t = StatusWaiter then
       (if \<not> statusQueryInProgress s
        then resolve c (lastStatusResult s) (s\<lparr>tasks := (tasks s)(c := None)\<rparr>) else s)
     else if t = FetchWaiter then
       (if commandInProgress s = False then fetchStatus c s else s)
     else if t = CommandWaiter then
       (if \<not> commandInProgress s then postCommands c s else s)
     else s)"

text \<open>
  \<open>startPollingState(pollSeconds, ...)\<close>: the period of the timer it creates, if it
  creates one; \<open>jitter\<close> is \<open>Math.floor(Math.random() * 1000)\<close>.
\<close>

definition startPollingState :: "platform_config \<Rightarrow> int \<Rightarrow> int \<Rightarrow> int option" where
  "startPollingState config pollSeconds jitter =
    (if (case WebhookToken config of Some token \<Rightarrow> token \<noteq> '''' | None \<Rightarrow> False) then None
     else if pollSeconds > 0 then Some (pollSeconds * 1000 + jitter)
     else None)"

text \<open>The callback of the polling timer (lines 531 to 564): what a tick decides.\<close>

datatype tick = Skipped | Polled | Probed | Idle

definition pollTick :: "int \<Rightarrow> accessory \<Rightarrow> tick" where
  "pollTick now s =
    (if commandInProgress s \<or> now - lastCommandCompleted s < 20 * 1000 then Skipped
     else if online s then Polled
     else if giveUpTime s > 0 \<and> now - giveUpTime s > 10 * 60 * 1000 then Probed
     else Idle)"

definition pollingTick :: "nat \<Rightarrow> int \<Rightarrow> accessory \<Rightarrow> accessory" where
  "pollingTick c now s =
    (case pollTick now s of
       Skipped \<Rightarrow> s
     | Polled \<Rightarrow> s\<lparr>polled := polled s @ [c]\<rparr>
     | Probed \<Rightarrow> s\<lparr>remote := remote s @ [HealthGet c], tasks := (tasks s)(c \<mapsto> ProbeInFlight)\<rparr>
     | Idle \<Rightarrow> s)"

text \<open>The response callback of the probe (lines 556 to 562).\<close>

definition probeSucceeded :: "nat \<Rightarrow> bool \<Rightarrow> accessory \<Rightarrow> accessory" where
  "probeSucceeded c stateOnline s =
    (let s1 = (if stateOnline then s\<lparr>online := True, giveUpTime := 0, failureCount := 0\<rparr>
               else s)
     in s1\<lparr>tasks := (tasks s1)(c := None)\<rparr>)"

text \<open>
  What can happen to an accessory, one step each. A call takes a number no pending task
  has; a callback needs the task it belongs to. A step that is not possible in the state
  is \<open>None\<close>.
\<close>

datatype event =
    HealthCheckResponse bool
  | HealthCheckError
  | RefreshStatus nat int
  | SendCommands nat
  | Then nat
  | Interval nat
  | StatusResponse nat int "string list"
  | StatusError nat int
  | CommandResponse nat
  | CommandError nat
  | PollingTick nat int
  | ProbeResponse nat bool
  | ProbeError nat
  | ForceNextStatusRefresh

fun step :: "event \<Rightarrow> accessory \<Rightarrow> accessory option" where
  "step (HealthCheckResponse stateOnline) s =
     (if tasks s 0 = Some HealthCheck then Some (healthChecked stateOnline s) else None)"
| "step HealthCheckError s =
     (if tasks s 0 = Some HealthCheck then Some (healthCheckFailed s) else None)"
| "step (RefreshStatus c now) s =
     (if tasks s c = None then Some (refreshStatus c now s) else None)"
| "step (SendCommands c) s =
     (if tasks s c = None then Some (sendCommands c s) else None)"
| "step (Then c) s =
     (if tasks s c = Some FetchStart then Some (fetchStatus c s)
      else if tasks s c = Some CommandStart then Some (postCommands c s)
      else None)"
| "step (Interval c) s =
     (case tasks s c of
        Some t \<Rightarrow> if t = StatusWaiter \<or> t = FetchWaiter \<or> t = CommandWaiter
                  then Some (interval c t s) else None
      | None \<Rightarrow> None)"
| "step (StatusResponse c now present) s =
     (if tasks s c = Some FetchInFlight then Some (statusSucceeded c now present s) else None)"
| "step (StatusError c now) s =
     (if tasks s c = Some FetchInFlight then Some (statusFailed c now s) else None)"
| "step (CommandResponse c) s =
     (if tasks s c = Some CommandInFlight then Some (commandSucceeded c s) else None)"
| "step (CommandError c) s =
     (if tasks s c = Some CommandInFlight then Some (commandFailed c s) else None)"
| "step (PollingTick c now) s =
     (if tasks s c = None then Some (pollingTick c now s) else None)"
| "step (ProbeResponse c stateOnline) s =
     (if tasks s c = Some ProbeInFlight then Some (probeSucceeded c stateOnline s) else None)"
| "step (ProbeError c) s =
     (if tasks s c = Some ProbeInFlight then Some (s\<lparr>tasks := (tasks s)(c := None)\<rparr>)
      else None)"
| "step ForceNextStatusRefresh s = Some (forceNextStatusRefresh s)"

fun run :: "event list \<Rightarrow> accessory \<Rightarrow> accessory option" where
  "run [] s = Some s"
| "run (e # es) s = (case step e s of None \<Rightarrow> None | Some s' \<Rightarrow> run es s')"

text \<open>Observations on a run.\<close>

definition statusGets :: "accessory \<Rightarrow> nat" where
  "statusGets s = length (filter (\<lambda>r. case r of StatusGet c \<Rightarrow> True | _ \<Rightarrow> False) (remote s))"

definition commandsInFlight :: "remote_event list \<Rightarrow> nat list" where
  "commandsInFlight log =
    foldl (\<lambda>inFlight r. case r of CommandPost c \<Rightarrow> inFlight @ [c]
                              | CommandDone c \<Rightarrow> removeAll c inFlight
                              | _ \<Rightarrow> inFlight) [] log"

subsection \<open>Invariant and example runs of an accessory\<close>

text \<open>
  A status query that has been started and has not yet returned: at most one call is
  in one of these stages, and while one is, the query flag is set and the failure
  counter is still at the 0 that \<open>refreshStatus\<close> put there.
\<close>

definition fetching :: "task \<Rightarrow> bool" where
  "fetching t = (t = FetchWaiter \<or> t = FetchStart \<or> t = FetchInFlight)"

definition fetchers :: "accessory \<Rightarrow> nat set" where
  "fetchers s = {c. \<exists>t. tasks s c = Some t \<and> fetching t}"

definition queryInv :: "accessory \<Rightarrow> bool" where
  "queryInv s =
    ((fetchers s \<noteq> {} \<longrightarrow> failureCount s = 0 \<and> statusQueryInProgress s)
     \<and> (\<forall>c c'. c \<in> fetchers s \<and> c' \<in> fetchers s \<longrightarrow> c = c')
     \<and> 0 \<le> failureCount s \<and> failureCount s \<le> 1 \<and> giveUpTime s = 0
     \<and> lastCommandCompleted s = 0)"

text \<open>
  Six status queries in a row, one second apart, each failing after 100 ms, on an
  accessory whose health check found the device online.
\<close>

definition sixFailures :: "event list" where
  "sixFailures =
    [HealthCheckResponse True,
     RefreshStatus 1 1700000000000, Then 1, StatusError 1 1700000000100,
     RefreshStatus 2 1700000001000, Then 2, StatusError 2 1700000001100,
     RefreshStatus 3 1700000002000, Then 3, StatusError 3 1700000002100,
     RefreshStatus 4 1700000003000, Then 4, StatusError 4 1700000003100,
     RefreshStatus 5 1700000004000, Then 5, StatusError 5 1700000004100,
     RefreshStatus 6 1700000005000, Then 6, StatusError 6 1700000005100]"

text \<open>
  Two \<open>sendCommands\<close> calls made one after the other before either callback has run,
  and a \<open>sendCommands\<close> call followed at once by a \<open>refreshStatus\<close> call.
\<close>

definition twoCommands :: "event list" where
  "twoCommands = [HealthCheckResponse True, SendCommands 1, SendCommands 2, Then 1, Then 2]"

definition commandThenRefresh :: "event list" where
  "commandThenRefresh =
    [HealthCheckResponse True, SendCommands 1, RefreshStatus 2 1700000000000, Then 1, Then 2]"


text \<open>
  A command sent to a device that the health check reported offline.
\<close>

definition commandWhileOffline :: "event list" where
  "commandWhileOffline = [HealthCheckResponse False, SendCommands 1, Then 1]"

text \<open>
  A command that is sent and acknowledged; the polling timer fires one second after
  the acknowledgement, at 1700000001000.
\<close>

definition commandCompleted :: "event list" where
  "commandCompleted = [HealthCheckResponse True, SendCommands 1, Then 1, CommandResponse 1]"

text \<open>
  A caller waiting for a query in progress, and a third call that starts the next query
  between the failure of the first and the waiter's next timer tick.
\<close>

definition waiterOvertaken :: "event list" where
  "waiterOvertaken =
    [HealthCheckResponse True,
     RefreshStatus 1 1700000000000, Then 1, RefreshStatus 2 1700000000050,
     StatusError 1 1700000000100,
     RefreshStatus 3 1700000000150, Then 3, Interval 2,
     StatusResponse 3 1700000000400 [''main''], Interval 2]"

subsection \<open>What may happen between two status calls\<close>




text \<open>
  The calls whose remote status call is awaiting its response; while there is one,
  \<open>lastStatusResult\<close> is the \<open>true\<close> that the callback before the call put there.
\<close>

definition flying :: "accessory \<Rightarrow> nat set" where
  "flying s = {c. tasks s c = Some FetchInFlight}"



definition refreshThenForced :: "event list" where
  "refreshThenForced =
    [HealthCheckResponse True,
     RefreshStatus 1 1700000000000, Then 1, StatusResponse 1 1700000000100 [''main''],
     ForceNextStatusRefresh, RefreshStatus 2 1700000000200, Then 2]"


section \<open>Tokens and start-up (tokenManager.ts, auth.ts, platform.ts)\<close>

text \<open>
  \<open>TokenData\<close>. A string field that is missing in the object is the empty string here:
  every reader goes through \<open>x || null\<close> or \<open>!x\<close>, which treat both alike.
\<close>

record token_data =
  access_token :: string
  refresh_token :: string
  expires_in :: int
  expires_at :: int
  refresh_token_expires_at :: int
  installed_app_id :: "string option"
  location_id :: "string option"

text \<open>
  \<open>Partial<TokenData>\<close> as the token endpoint returns it (\<open>response.data\<close>): any field may
  be missing.
\<close>

record token_response =
  new_access_token :: "string option"
  new_refresh_token :: "string option"
  new_expires_in :: "int option"
  new_expires_at :: "int option"
  new_refresh_token_expires_at :: "int option"
  new_installed_app_id :: "string option"
  new_location_id :: "string option"

text \<open>
  Who started a call of \<open>SmartThingsAuth.refreshTokens\<close>: the refresh monitor of the token
  manager, the response interceptor for a request that came back with 401, or
  \<open>initialize()\<close>.
\<close>

datatype origin = Monitor | Interceptor nat | Startup

datatype exchange = ExchangeStart origin string | ExchangeEnd origin

text \<open>
  The token manager (\<open>tokenData\<close>, the token file, the monitor's timer) and what the
  authentication object and the interceptor do around it: the number of
  \<open>startAuthFlow()\<close> calls, the token-exchange calls that are awaiting their response and
  the log of all of them, the requests marked \<open>_retry\<close>, the requests sent again with the
  bearer token they were sent with, the requests whose error was passed on, and the
  value \<open>initialize()\<close> returned.
\<close>

record auth =
  tokenData :: "token_data option"
  tokenFile :: "token_data option"
  refreshTimer :: bool
  authFlows :: nat
  pending :: "origin list"
  exchanges :: "exchange list"
  retried :: "nat list"
  retries :: "(nat \<times> string) list"
  rejected :: "nat list"
  authFlowStarted :: "bool option"

definition REFRESH_BEFORE_EXPIRY :: int where
  "REFRESH_BEFORE_EXPIRY = 5 * 60 * 1000"

definition getAccessToken :: "auth \<Rightarrow> string option" where
  "getAccessToken a =
    (case tokenData a of
       None \<Rightarrow> None
     | Some t \<Rightarrow> if access_token t = '''' then None else Some (access_token t))"

definition getRefreshToken :: "auth \<Rightarrow> string option" where
  "getRefreshToken a =
    (case tokenData a of
       None \<Rightarrow> None
     | Some t \<Rightarrow> if refresh_token t = '''' then None else Some (refresh_token t))"

definition isTokenValid :: "int \<Rightarrow> auth \<Rightarrow> bool" where
  "isTokenValid now a =
    (case tokenData a of
       None \<Rightarrow> False
     | Some t \<Rightarrow> now < expires_at t - REFRESH_BEFORE_EXPIRY)"

definition isRefreshTokenValid :: "int \<Rightarrow> auth \<Rightarrow> bool" where
  "isRefreshTokenValid now a =
    (case tokenData a of
       None \<Rightarrow> False
     | Some t \<Rightarrow> now < refresh_token_expires_at t - REFRESH_BEFORE_EXPIRY)"

text \<open>
  \<open>saveTokens()\<close>: a failing write is logged and nothing else; \<open>writeOk\<close> says whether
  \<open>fs.writeFileSync\<close> goes through.
\<close>

definition saveTokens :: "bool \<Rightarrow> auth \<Rightarrow> auth" where
  "saveTokens writeOk a =
    (case tokenData a of
       Some t \<Rightarrow> if writeOk then a\<lparr>tokenFile := Some t\<rparr> else a
     | None \<Rightarrow> a)"

text \<open>
  \<open>updateTokens(tokenData)\<close>: the old record, overwritten by the fields the response
  has, with both expiry times computed from \<open>Date.now()\<close>.
\<close>

definition updateTokens :: "int \<Rightarrow> bool \<Rightarrow> token_response \<Rightarrow> auth \<Rightarrow> auth" where
  "updateTokens now writeOk r a =
    (let old = (case tokenData a of
                  Some t \<Rightarrow> t
                | None \<Rightarrow> \<lparr>access_token = '''', refresh_token = '''', expires_in = 0,
                            expires_at = 0, refresh_token_expires_at = 0,
                            installed_app_id = None, location_id = None\<rparr>);
         merged =
           \<lparr>access_token = (case new_access_token r of Some x \<Rightarrow> x | None \<Rightarrow> access_token old),
            refresh_token =
              (case new_refresh_token r of Some x \<Rightarrow> x | None \<Rightarrow> refresh_token old),
            expires_in = (case new_expires_in r of Some x \<Rightarrow> x | None \<Rightarrow> expires_in old),
            expires_at = now + (case new_expires_in r of Some x \<Rightarrow> x | None \<Rightarrow> 0) * 1000,
            refresh_token_expires_at = now + 30 * 24 * 60 * 60 * 1000,
            installed_app_id =
              (case new_installed_app_id r of Some x \<Rightarrow> Some x | None \<Rightarrow> installed_app_id old),
            location_id =
              (case new_location_id r of Some x \<Rightarrow> Some x | None \<Rightarrow> location_id old)\<rparr>
     in saveTokens writeOk (a\<lparr>tokenData := Some merged\<rparr>))"

text \<open>
  \<open>clearTokens()\<close>: \<open>removeOk\<close> says whether \<open>fsExtra.remove\<close> goes through; when it does
  not, the error is logged and thrown again.
\<close>

datatype fs_error = RemoveFailed

definition clearTokens :: "bool \<Rightarrow> auth \<Rightarrow> fs_error + auth" where
  "clearTokens removeOk a =
    (if tokenFile a \<noteq> None then
       (if removeOk then Inr (a\<lparr>tokenFile := None, tokenData := None, refreshTimer := False\<rparr>)
        else Inl RemoveFailed)
     else Inr a)"

text \<open>
  \<open>startAuthFlow()\<close> prints the call to authorise again (and picks a fresh \<open>state\<close> for
  the callback); the model counts the calls.
\<close>

definition startAuthFlow :: "auth \<Rightarrow> auth" where
  "startAuthFlow a = a\<lparr>authFlows := authFlows a + 1\<rparr>"

definition handleCrashLoopRecovery :: "bool \<Rightarrow> auth \<Rightarrow> auth" where
  "handleCrashLoopRecovery removeOk a =
    (case clearTokens removeOk a of
       Inr a' \<Rightarrow> startAuthFlow a'
     | Inl error \<Rightarrow> startAuthFlow a)"

text \<open>
  \<open>refreshTokens(refreshToken)\<close> up to its \<open>await\<close>: without a refresh token it throws,
  otherwise the POST to the token endpoint starts. When the POST returns,
  \<open>refreshTokens\<close> hands \<open>response.data\<close> to its caller (or throws the error again) and
  touches nothing.
\<close>

definition refreshTokens :: "origin \<Rightarrow> string option \<Rightarrow> auth \<Rightarrow> auth option" where
  "refreshTokens who refreshToken a =
    (case refreshToken of
       None \<Rightarrow> None
     | Some token \<Rightarrow>
         Some (a\<lparr>pending := pending a @ [who],
                 exchanges := exchanges a @ [ExchangeStart who token]\<rparr>))"

definition refreshReturned :: "origin \<Rightarrow> auth \<Rightarrow> auth" where
  "refreshReturned who a =
    a\<lparr>pending := remove1 who (pending a), exchanges := exchanges a @ [ExchangeEnd who]\<rparr>"

text \<open>
  \<open>checkAndRefreshTokens()\<close>, called by the monitor's timer every minute: up to its
  \<open>await\<close>, and then on the response and on the error of the token endpoint.
\<close>

definition checkAndRefreshTokens :: "int \<Rightarrow> auth \<Rightarrow> auth" where
  "checkAndRefreshTokens now a =
    (case tokenData a of
       None \<Rightarrow> a
     | Some t \<Rightarrow>
         if refresh_token t = '''' then a
         else if expires_at t - now \<le> REFRESH_BEFORE_EXPIRY then
           (case refreshTokens Monitor (getRefreshToken a) a of
              Some a' \<Rightarrow> a'
            | None \<Rightarrow> startAuthFlow a)
         else a)"

definition monitorRefreshed :: "int \<Rightarrow> bool \<Rightarrow> token_response \<Rightarrow> auth \<Rightarrow> auth" where
  "monitorRefreshed now writeOk r a = updateTokens now writeOk r (refreshReturned Monitor a)"

definition monitorRefreshFailed :: "auth \<Rightarrow> auth" where
  "monitorRefreshFailed a = startAuthFlow (refreshReturned Monitor a)"

text \<open>
  The response interceptor on an error with status 401 (platform.ts, lines 81 to 119):
  up to its \<open>await\<close>, and then on the response and on the error of the token endpoint.
  The request that is sent again passes the request interceptor, which puts
  \<open>getAccessToken()\<close> into its header.
\<close>

definition unauthorized :: "nat \<Rightarrow> auth \<Rightarrow> auth" where
  "unauthorized request a =
    (if request \<notin> set (retried a) then
       let a1 = a\<lparr>retried := retried a @ [request]\<rparr>
       in (case getRefreshToken a1 of
             None \<Rightarrow> (startAuthFlow a1)\<lparr>rejected := rejected a1 @ [request]\<rparr>
           | Some refreshToken \<Rightarrow>
               (case refreshTokens (Interceptor request) (Some refreshToken) a1 of
                  Some a2 \<Rightarrow> a2
                | None \<Rightarrow> (startAuthFlow a1)\<lparr>rejected := rejected a1 @ [request]\<rparr>))
     else a\<lparr>rejected := rejected a @ [request]\<rparr>)"

definition interceptorRefreshed :: "nat \<Rightarrow> token_response \<Rightarrow> auth \<Rightarrow> auth" where
  "interceptorRefreshed request r a =
    (let a1 = refreshReturned (Interceptor request) a
     in (case getAccessToken a1 of
           Some newToken \<Rightarrow> a1\<lparr>retries := retries a1 @ [(request, newToken)]\<rparr>
         | None \<Rightarrow> a1\<lparr>rejected := rejected a1 @ [request]\<rparr>))"

definition interceptorRefreshFailed :: "nat \<Rightarrow> auth \<Rightarrow> auth" where
  "interceptorRefreshFailed request a =
    (let a1 = startAuthFlow (refreshReturned (Interceptor request) a)
     in a1\<lparr>rejected := rejected a1 @ [request]\<rparr>)"

text \<open>
  \<open>initialize()\<close>: up to its \<open>await\<close>, and then on the response and on the error of the
  token endpoint. \<open>authFlowStarted\<close> is the value it returns, once it has returned.
\<close>

definition initialize :: "int \<Rightarrow> auth \<Rightarrow> auth" where
  "initialize now a =
    (if getAccessToken a = None \<or> \<not> isTokenValid now a then
       if isRefreshTokenValid now a then
         (case getRefreshToken a of
            Some currentRefreshToken \<Rightarrow>
              (case refreshTokens Startup (Some currentRefreshToken) a of
                 Some a' \<Rightarrow> a'
               | None \<Rightarrow> (startAuthFlow a)\<lparr>authFlowStarted := Some True\<rparr>)
          | None \<Rightarrow> (startAuthFlow a)\<lparr>authFlowStarted := Some True\<rparr>)
       else (startAuthFlow a)\<lparr>authFlowStarted := Some True\<rparr>
     else a\<lparr>authFlowStarted := Some False\<rparr>)"

definition initializeRefreshed :: "token_response \<Rightarrow> auth \<Rightarrow> auth" where
  "initializeRefreshed r a = (refreshReturned Startup a)\<lparr>authFlowStarted := Some False\<rparr>"

definition initializeRefreshFailed :: "auth \<Rightarrow> auth" where
  "initializeRefreshFailed a =
    (startAuthFlow (refreshReturned Startup a))\<lparr>authFlowStarted := Some True\<rparr>"

text \<open>
  The steps of the token side. A response or an error of the token endpoint needs a
  call of that origin awaiting it.
\<close>

datatype auth_event =
    MonitorTick int
  | MonitorResponse int bool token_response
  | MonitorError
  | Unauthorized nat
  | InterceptorResponse nat token_response
  | InterceptorError nat
  | Initialize int
  | InitializeResponse token_response
  | InitializeError

fun authStep :: "auth_event \<Rightarrow> auth \<Rightarrow> auth option" where
  "authStep (MonitorTick now) a =
     (if refreshTimer a then Some (checkAndRefreshTokens now a) else None)"
| "authStep (MonitorResponse now writeOk r) a =
     (if Monitor \<in> set (pending a) then Some (monitorRefreshed now writeOk r a) else None)"
| "authStep MonitorError a =
     (if Monitor \<in> set (pending a) then Some (monitorRefreshFailed a) else None)"
| "authStep (Unauthorized request) a = Some (unauthorized request a)"
| "authStep (InterceptorResponse request r) a =
     (if Interceptor request \<in> set (pending a) then Some (interceptorRefreshed request r a)
      else None)"
| "authStep (InterceptorError request) a =
     (if Interceptor request \<in> set (pending a) then Some (interceptorRefreshFailed request a)
      else None)"
| "authStep (Initialize now) a = Some (initialize now a)"
| "authStep (InitializeResponse r) a =
     (if Startup \<in> set (pending a) then Some (initializeRefreshed r a) else None)"
| "authStep InitializeError a =
     (if Startup \<in> set (pending a) then Some (initializeRefreshFailed a) else None)"

fun authRun :: "auth_event list \<Rightarrow> auth \<Rightarrow> auth option" where
  "authRun [] a = Some a"
| "authRun (e # es) a = (case authStep e a of None \<Rightarrow> None | Some a' \<Rightarrow> authRun es a')"

subsection \<open>Start-up (platform.ts, the \<open>didFinishLaunching\<close> handler)\<close>

text \<open>
  The crash records and the configuration that \<open>CrashLoopManager\<close>
  (auth/CrashLoopManager.ts) works on. The class is not among the sources at hand; the
  error kinds are the ones its callers name, and the configuration has what the spec
  calls "N failures within W minutes", optionally only of given kinds.
\<close>

datatype CrashErrorType = DEVICE_HEALTH_FAILURE | API_INIT_FAILURE | UNKNOWN_API_FAILURE

record crash_record =
  crash_timestamp :: int
  crash_errorKind :: CrashErrorType

record crash_loop_config =
  crash_count :: nat
  crash_window :: int
  crash_kinds :: "CrashErrorType list option"

text \<open>
  Modelled from the spec: the rolling window of \<open>CrashLoopManager\<close>, whose code is
  missing. The record is "pruned to a rolling window": entries older than the configured
  duration are dropped, and the entries may be "optionally filtered by kind".
\<close>

definition prunedWindow :: "crash_loop_config \<Rightarrow> int \<Rightarrow> crash_record list \<Rightarrow> crash_record list" where
  "prunedWindow config now records =
    filter (\<lambda>r. now - crash_timestamp r \<le> crash_window config
                \<and> (case crash_kinds config of
                      None \<Rightarrow> True
                    | Some kinds \<Rightarrow> crash_errorKind r \<in> set kinds))
      records"

text \<open>
  Modelled from the spec: \<open>CrashLoopManager.isCrashLoopDetected(config)\<close>, whose code is
  missing. It is "true iff the pruned window contains \<open>\<ge> N\<close> entries".
\<close>

definition isCrashLoopDetected :: "crash_loop_config \<Rightarrow> int \<Rightarrow> crash_record list \<Rightarrow> bool" where
  "isCrashLoopDetected config now records =
    (crash_count config \<le> length (prunedWindow config now records))"

text \<open>
  The handler up to the end of \<open>initialize()\<close>'s synchronous part: when a crash loop is
  detected it runs the recovery and returns; otherwise it goes on to \<open>initialize()\<close>, and
  to device discovery after that. The second component records which of the two ways it
  took.
\<close>

datatype launch = Recovery | Initialization

definition didFinishLaunching ::
  "crash_loop_config \<Rightarrow> int \<Rightarrow> crash_record list \<Rightarrow> bool \<Rightarrow> auth \<Rightarrow> auth \<times> launch" where
  "didFinishLaunching config now records removeOk a =
    (if isCrashLoopDetected config now records
     then (handleCrashLoopRecovery removeOk a, Recovery)
     else (initialize now a, Initialization))"

subsection \<open>Example states of the token side\<close>

definition sampleToken :: token_data where
  "sampleToken =
    \<lparr>access_token = ''access-1'', refresh_token = ''refresh-1'', expires_in = 86400,
     expires_at = 1700000000000, refresh_token_expires_at = 1702592000000,
     installed_app_id = None, location_id = None\<rparr>"

definition sampleResponse :: token_response where
  "sampleResponse =
    \<lparr>new_access_token = Some ''access-2'', new_refresh_token = Some ''refresh-2'',
     new_expires_in = Some 86400, new_expires_at = None,
     new_refresh_token_expires_at = None, new_installed_app_id = None,
     new_location_id = None\<rparr>"

definition sampleAuth :: auth where
  "sampleAuth =
    \<lparr>tokenData = Some sampleToken, tokenFile = Some sampleToken, refreshTimer = True,
     authFlows = 0, pending = [], exchanges = [], retried = [], retries = [],
     rejected = [], authFlowStarted = None\<rparr>"

definition sampleCrashConfig :: crash_loop_config where
  "sampleCrashConfig = \<lparr>crash_count = 3, crash_window = 600000, crash_kinds = None\<rparr>"

definition sampleCrashes :: "crash_record list" where
  "sampleCrashes =
    [\<lparr>crash_timestamp = 1700000000000, crash_errorKind = API_INIT_FAILURE\<rparr>,
     \<lparr>crash_timestamp = 1700000060000, crash_errorKind = API_INIT_FAILURE\<rparr>,
     \<lparr>crash_timestamp = 1700000120000, crash_errorKind = DEVICE_HEALTH_FAILURE\<rparr>]"

section \<open>Properties of capability resolution\<close>

lemmas resolve_defs = addComponent_def televisionBranch_def comboLoop_def capabilityLoop_def
  sortBy_def comboCapabilityMap_def capabilityMap_def comboCompare_def
  registerServiceIfMatchesCapabilities_def defaultConfig_def sampleTv_def

lemma pairwiseDisjoint_append:
  "pairwiseDisjoint (xs @ ys) =
    (pairwiseDisjoint xs \<and> pairwiseDisjoint ys
      \<and> (\<forall>x \<in> set xs. \<forall>y \<in> set ys. set x \<inter> set y = {}))"
  by (induction xs) (auto simp: list_all_iff)

lemma pairwiseDisjoint_filter:
  "pairwiseDisjoint (map f xs) \<Longrightarrow> pairwiseDisjoint (map f (filter P xs))"
  by (induction xs) (auto simp: list_all_iff)

lemma extends_refl: "extends st st"
  by (simp add: extends_def)

lemma extends_trans:
  assumes "extends a b" and "extends b c"
  shows "extends a c"
proof -
  from assms(1) obtain n1 where n1: "fst b = fst a @ n1"
    "\<forall>x \<in> set n1. set (svc_capabilities x) \<subseteq> set (snd a)
        \<and> set (svc_capabilities x) \<inter> set (snd b) = {}"
    "pairwiseDisjoint (map svc_capabilities n1)" "set (snd b) \<subseteq> set (snd a)"
    unfolding extends_def by blast
  from assms(2) obtain n2 where n2: "fst c = fst b @ n2"
    "\<forall>x \<in> set n2. set (svc_capabilities x) \<subseteq> set (snd b)
        \<and> set (svc_capabilities x) \<inter> set (snd c) = {}"
    "pairwiseDisjoint (map svc_capabilities n2)" "set (snd c) \<subseteq> set (snd b)"
    unfolding extends_def by blast
  have 1: "fst c = fst a @ (n1 @ n2)" using n1(1) n2(1) by simp
  have 2: "\<forall>x \<in> set (n1 @ n2). set (svc_capabilities x) \<subseteq> set (snd a)
      \<and> set (svc_capabilities x) \<inter> set (snd c) = {}"
    using n1(2,4) n2(2,4) by auto blast+
  have cross: "\<forall>x \<in> set n1. \<forall>y \<in> set n2.
      set (svc_capabilities x) \<inter> set (svc_capabilities y) = {}"
    using n1(2) n2(2) by blast
  have 3: "pairwiseDisjoint (map svc_capabilities (n1 @ n2))"
    using cross n1(3) n2(3) by (simp add: pairwiseDisjoint_append)
  have 4: "set (snd c) \<subseteq> set (snd a)" using n1(4) n2(4) by blast
  show ?thesis unfolding extends_def using 1 2 3 4 by blast
qed

lemma register_extends:
  "extends (services, toCover)
     (registerServiceIfMatchesCapabilities componentId toCover caps opt ctor services)"
  by (auto simp: extends_def registerServiceIfMatchesCapabilities_def Let_def list_all_iff)

lemma foldl_extends:
  assumes "\<And>s x. extends s (f s x)"
  shows "extends st (foldl f st xs)"
proof (induction xs arbitrary: st)
  case Nil
  show ?case by (simp add: extends_refl)
next
  case (Cons x xs)
  show ?case using extends_trans [OF assms [of st x] Cons [of "f st x"]] by simp
qed

lemma comboLoop_extends: "extends st (comboLoop componentId st)"
  unfolding comboLoop_def
  by (rule foldl_extends) (auto simp: register_extends split: prod.splits)

lemma capabilityLoop_extends: "extends st (capabilityLoop config componentId st)"
  unfolding capabilityLoop_def
  by (rule foldl_extends) (auto simp: register_extends extends_refl split: prod.splits)

lemma tables_extends:
  "extends st (capabilityLoop config componentId (comboLoop componentId st))"
  by (rule extends_trans [OF comboLoop_extends capabilityLoop_extends])

lemma televisionBranch_shape:
  "\<exists>heur. fst (televisionBranch config tv componentId capabilities services) = services @ heur
     \<and> (\<forall>a \<in> set heur. set (svc_capabilities a) \<subseteq> set capabilities)
     \<and> set (snd (televisionBranch config tv componentId capabilities services))
          \<subseteq> set capabilities
     \<and> pairwiseDisjoint (map svc_capabilities
          (filter (\<lambda>a. svc_ctor a \<noteq> TelevisionService) heur))
     \<and> (\<forall>a \<in> set heur. svc_ctor a \<noteq> TelevisionService \<longrightarrow>
           set (svc_capabilities a)
             \<inter> set (snd (televisionBranch config tv componentId capabilities services)) = {})
     \<and> (\<not> televisionApplies config tv componentId \<or> legacyFree config tv capabilities \<longrightarrow>
           pairwiseDisjoint (map svc_capabilities heur)
           \<and> (\<forall>a \<in> set heur.
                 set (svc_capabilities a)
                   \<inter> set (snd (televisionBranch config tv componentId capabilities services))
                 = {}))"
  unfolding televisionBranch_def televisionApplies_def legacyFree_def Let_def
  by (auto simp: list_all_iff)

text \<open>
  C1, as the code has it. \<open>addComponent\<close> only appends services. Every new service's
  capabilities are among the component's declared ones. All new services other than the
  Television service have pairwise disjoint capability lists. With the Television
  service included the lists are pairwise disjoint whenever the Television branch is
  not entered, or it is entered with the legacy switch removed (or \<open>switch\<close> not claimed
  by the Television service) and with no volume slider sharing a declared capability
  with the Television service.
\<close>

theorem addComponent_bindings:
  "\<exists>new. addComponent config tv componentId capabilities services = services @ new
     \<and> list_all (\<lambda>a. set (svc_capabilities a) \<subseteq> set capabilities) new
     \<and> pairwiseDisjoint (map svc_capabilities
           (filter (\<lambda>a. svc_ctor a \<noteq> TelevisionService) new))
     \<and> (\<not> televisionApplies config tv componentId \<or> legacyFree config tv capabilities \<longrightarrow>
           pairwiseDisjoint (map svc_capabilities new))"
proof -
  let ?tb = "televisionBranch config tv componentId capabilities services"
  let ?fin = "capabilityLoop config componentId (comboLoop componentId ?tb)"
  let ?ok = "\<not> televisionApplies config tv componentId \<or> legacyFree config tv capabilities"
  obtain heur where heur: "fst ?tb = services @ heur"
    "\<forall>a \<in> set heur. set (svc_capabilities a) \<subseteq> set capabilities"
    "set (snd ?tb) \<subseteq> set capabilities"
    "pairwiseDisjoint (map svc_capabilities
       (filter (\<lambda>a. svc_ctor a \<noteq> TelevisionService) heur))"
    "\<forall>a \<in> set heur. svc_ctor a \<noteq> TelevisionService \<longrightarrow>
       set (svc_capabilities a) \<inter> set (snd ?tb) = {}"
    "?ok \<longrightarrow> pairwiseDisjoint (map svc_capabilities heur)
       \<and> (\<forall>a \<in> set heur. set (svc_capabilities a) \<inter> set (snd ?tb) = {})"
    using televisionBranch_shape [of config tv componentId capabilities services] by blast
  obtain tbl where tbl: "fst ?fin = fst ?tb @ tbl"
    "\<forall>a \<in> set tbl. set (svc_capabilities a) \<subseteq> set (snd ?tb)"
    "pairwiseDisjoint (map svc_capabilities tbl)"
    using tables_extends [of ?tb config componentId] unfolding extends_def by blast
  have eq: "addComponent config tv componentId capabilities services = services @ (heur @ tbl)"
    by (simp add: addComponent_def tbl(1) heur(1))
  have sub: "list_all (\<lambda>a. set (svc_capabilities a) \<subseteq> set capabilities) (heur @ tbl)"
    using heur(2,3) tbl(2) by (auto simp: list_all_iff)
  have others: "pairwiseDisjoint (map svc_capabilities
      (filter (\<lambda>a. svc_ctor a \<noteq> TelevisionService) (heur @ tbl)))"
  proof -
    have "\<forall>x \<in> set (filter (\<lambda>a. svc_ctor a \<noteq> TelevisionService) heur).
            \<forall>y \<in> set (filter (\<lambda>a. svc_ctor a \<noteq> TelevisionService) tbl).
              set (svc_capabilities x) \<inter> set (svc_capabilities y) = {}"
      using heur(5) tbl(2) by auto
    then show ?thesis
      using heur(4) pairwiseDisjoint_filter [OF tbl(3)]
      by (simp add: pairwiseDisjoint_append)
  qed
  have full: "?ok \<longrightarrow> pairwiseDisjoint (map svc_capabilities (heur @ tbl))"
  proof
    assume ok: ?ok
    have "\<forall>x \<in> set heur. \<forall>y \<in> set tbl.
            set (svc_capabilities x) \<inter> set (svc_capabilities y) = {}"
      using heur(6) ok tbl(2) by blast
    then show "pairwiseDisjoint (map svc_capabilities (heur @ tbl))"
      using heur(6) ok tbl(3) by (simp add: pairwiseDisjoint_append)
  qed
  show ?thesis using eq sub others full by blast
qed

text \<open>
  The theorem at a television with the legacy switch removed: the Television service
  takes \<open>switch\<close> and \<open>audioVolume\<close>, the battery service the rest, with no overlap.
\<close>

theorem addComponent_bindings_witness:
  "pairwiseDisjoint (map svc_capabilities
     (addComponent (defaultConfig\<lparr>removeLegacySwitchForTV := Some True\<rparr>) sampleTv ''main''
        [''switch'', ''audioVolume'', ''battery''] []))
   \<and> addComponent (defaultConfig\<lparr>removeLegacySwitchForTV := Some True\<rparr>) sampleTv ''main''
        [''switch'', ''audioVolume'', ''battery''] []
     = [\<lparr>svc_ctor = TelevisionService, svc_componentId = ''main'',
          svc_capabilities = [''switch'', ''audioVolume'']\<rparr>,
        \<lparr>svc_ctor = Battery, svc_componentId = ''main'', svc_capabilities = [''battery'']\<rparr>]"
proof -
  have ok: "legacyFree (defaultConfig\<lparr>removeLegacySwitchForTV := Some True\<rparr>) sampleTv
      [''switch'', ''audioVolume'', ''battery'']"
    by (simp add: legacyFree_def defaultConfig_def sampleTv_def)
  have val: "addComponent (defaultConfig\<lparr>removeLegacySwitchForTV := Some True\<rparr>) sampleTv
        ''main'' [''switch'', ''audioVolume'', ''battery''] []
     = [\<lparr>svc_ctor = TelevisionService, svc_componentId = ''main'',
          svc_capabilities = [''switch'', ''audioVolume'']\<rparr>,
        \<lparr>svc_ctor = Battery, svc_componentId = ''main'', svc_capabilities = [''battery'']\<rparr>]"
    by code_simp
  show ?thesis
    using addComponent_bindings [of "defaultConfig\<lparr>removeLegacySwitchForTV := Some True\<rparr>"
      sampleTv "''main''" "[''switch'', ''audioVolume'', ''battery'']" "[]"] ok val
    by auto
qed

text \<open>
  C1 as stated fails under the legacy-switch retention policy, which is the default
  (\<open>removeLegacySwitchForTV\<close> absent): on a television whose main component declares
  \<open>switch\<close>, the Television service is given \<open>switch\<close>, the branch then pushes \<open>switch\<close>
  back onto the capabilities to cover, and the switch service is given it again.
\<close>

theorem addComponent_disjoint_counterexample:
  "\<not> pairwiseDisjoint (map svc_capabilities
       (addComponent defaultConfig sampleTv ''main'' [''switch''] []))"
  by code_simp

lemma addComponent_legacy_switch_value:
  "addComponent defaultConfig sampleTv ''main'' [''switch''] []
     = [\<lparr>svc_ctor = TelevisionService, svc_componentId = ''main'',
          svc_capabilities = [''switch'']\<rparr>,
        \<lparr>svc_ctor = SwitchService, svc_componentId = ''main'',
          svc_capabilities = [''switch'']\<rparr>]"
  by (simp add: resolve_defs Let_def)

subsection \<open>Order of the combination rules\<close>







text \<open>
  \<open>sort\<close> works in place on the static table, so every call of \<open>addComponent\<close> after the
  first sorts the table the first call left behind. That changes nothing.
\<close>

lemma sortBy_sorted_table:
  "sortBy comboCompare (sortBy comboCompare comboCapabilityMap)
     = sortBy comboCompare comboCapabilityMap"
  by (simp add: sortBy_def comboCapabilityMap_def comboCompare_def)









section \<open>Properties of status, commands and polling\<close>

lemmas device_defs = newAccessory_def refreshStatus_def fetchStatus_def statusSucceeded_def
  statusFailed_def sendCommands_def postCommands_def commandSucceeded_def commandFailed_def
  interval_def pollingTick_def pollTick_def probeSucceeded_def healthChecked_def
  healthCheckFailed_def forceNextStatusRefresh_def waitFor_def resolve_def Let_def

lemma fetchers_upd:
  "fetchers (s\<lparr>tasks := (tasks s)(c \<mapsto> t)\<rparr>) =
     (if fetching t then insert c (fetchers s) else fetchers s - {c})"
  by (auto simp: fetchers_def)

lemma fetchers_del: "fetchers (s\<lparr>tasks := (tasks s)(c := None)\<rparr>) = fetchers s - {c}"
  by (auto simp: fetchers_def)

lemma fetchers_tasks_cong: "tasks s' = tasks s \<Longrightarrow> fetchers s' = fetchers s"
  by (simp add: fetchers_def)

lemma fetchers_mem: "tasks s c = Some t \<Longrightarrow> fetching t \<Longrightarrow> c \<in> fetchers s"
  by (auto simp: fetchers_def)

lemma fetchers_not_mem: "tasks s c = Some t \<Longrightarrow> \<not> fetching t \<Longrightarrow> c \<notin> fetchers s"
  by (auto simp: fetchers_def)

lemma fetchers_fresh: "tasks s c = None \<Longrightarrow> c \<notin> fetchers s"
  by (auto simp: fetchers_def)

lemma queryInv_new: "queryInv (newAccessory ids)"
  by (simp add: queryInv_def newAccessory_def fetching_def fetchers_def)

lemma fetchers_fetchStatus: "fetchers (fetchStatus c s) = insert c (fetchers s)"
  by (auto simp: fetchers_def fetchStatus_def fetching_def)

lemma fetchers_postCommands: "fetchers (postCommands c s) = fetchers s - {c}"
  by (auto simp: fetchers_def postCommands_def fetching_def)

lemma fetchers_statusSucceeded: "fetchers (statusSucceeded c now p s) = fetchers s - {c}"
  by (auto simp: fetchers_def statusSucceeded_def resolve_def Let_def)

lemma fetchers_statusFailed: "fetchers (statusFailed c now s) = fetchers s - {c}"
  by (auto simp: fetchers_def statusFailed_def resolve_def Let_def)

lemma fetchers_refreshStatus:
  "fetchers (refreshStatus c now s) =
    (if now - deviceStatusTimestamp s > 5000
     then (if statusQueryInProgress s then fetchers s - {c} else insert c (fetchers s))
     else fetchers s)"
  by (auto simp: fetchers_def refreshStatus_def resolve_def Let_def waitFor_def fetching_def)

lemma fetchers_sendCommands: "fetchers (sendCommands c s) = fetchers s - {c}"
  by (auto simp: fetchers_def sendCommands_def waitFor_def fetching_def)

lemma fetchers_commandSucceeded: "fetchers (commandSucceeded c s) = fetchers s - {c}"
  by (auto simp: fetchers_def commandSucceeded_def resolve_def)

lemma fetchers_commandFailed: "fetchers (commandFailed c s) = fetchers s - {c}"
  by (auto simp: fetchers_def commandFailed_def resolve_def)

lemma fetchers_probeSucceeded: "fetchers (probeSucceeded c b s) = fetchers s - {c}"
  by (auto simp: fetchers_def probeSucceeded_def Let_def)

lemma fetchers_pollingTick: "tasks s c = None \<Longrightarrow> fetchers (pollingTick c now s) = fetchers s"
  by (auto simp: fetchers_def pollingTick_def fetching_def split: tick.splits)

lemma fetchers_health:
  "fetchers (healthChecked b s) = fetchers s - {0}" "fetchers (healthCheckFailed s) = fetchers s - {0}"
  by (auto simp: fetchers_def healthChecked_def healthCheckFailed_def)

lemma fetchers_interval:
  "tasks s c = Some t \<Longrightarrow> fetchers (interval c t s) = fetchers s"
  by (auto simp: fetchers_def interval_def fetchStatus_def postCommands_def resolve_def fetching_def)

lemma fields_refreshStatus:
  "failureCount (refreshStatus c now s) =
     (if now - deviceStatusTimestamp s > 5000 \<and> \<not> statusQueryInProgress s then 0 else failureCount s)"
  "statusQueryInProgress (refreshStatus c now s) =
     (now - deviceStatusTimestamp s > 5000 \<or> statusQueryInProgress s)"
  "giveUpTime (refreshStatus c now s) = giveUpTime s"
  "lastCommandCompleted (refreshStatus c now s) = lastCommandCompleted s"
  "online (refreshStatus c now s) = online s"
  by (auto simp: refreshStatus_def resolve_def Let_def waitFor_def)

lemma fields_fetchStatus:
  "failureCount (fetchStatus c s) = failureCount s"
  "statusQueryInProgress (fetchStatus c s) = statusQueryInProgress s"
  "giveUpTime (fetchStatus c s) = giveUpTime s"
  "lastCommandCompleted (fetchStatus c s) = lastCommandCompleted s"
  "online (fetchStatus c s) = online s"
  by (simp_all add: fetchStatus_def)

lemma fields_postCommands:
  "failureCount (postCommands c s) = failureCount s"
  "statusQueryInProgress (postCommands c s) = statusQueryInProgress s"
  "giveUpTime (postCommands c s) = giveUpTime s"
  "lastCommandCompleted (postCommands c s) = lastCommandCompleted s"
  "online (postCommands c s) = online s"
  by (simp_all add: postCommands_def)

lemma fields_sendCommands:
  "failureCount (sendCommands c s) = failureCount s"
  "statusQueryInProgress (sendCommands c s) = statusQueryInProgress s"
  "giveUpTime (sendCommands c s) = giveUpTime s"
  "lastCommandCompleted (sendCommands c s) = lastCommandCompleted s"
  "online (sendCommands c s) = online s"
  by (simp_all add: sendCommands_def waitFor_def)

lemma fields_statusSucceeded:
  "failureCount (statusSucceeded c now p s) = failureCount s"
  "statusQueryInProgress (statusSucceeded c now p s) = False"
  "giveUpTime (statusSucceeded c now p s) = giveUpTime s"
  "lastCommandCompleted (statusSucceeded c now p s) = lastCommandCompleted s"
  "online (statusSucceeded c now p s) = online s"
  by (simp_all add: statusSucceeded_def resolve_def Let_def)

lemma fields_statusFailed:
  "failureCount (statusFailed c now s) = failureCount s + 1"
  "statusQueryInProgress (statusFailed c now s) = False"
  "giveUpTime (statusFailed c now s) = (if failureCount s + 1 \<ge> 5 then now else giveUpTime s)"
  "lastCommandCompleted (statusFailed c now s) = lastCommandCompleted s"
  "online (statusFailed c now s) = (if failureCount s + 1 \<ge> 5 then False else online s)"
  by (simp_all add: statusFailed_def resolve_def Let_def)

lemma fields_commandSucceeded:
  "failureCount (commandSucceeded c s) = failureCount s"
  "statusQueryInProgress (commandSucceeded c s) = statusQueryInProgress s"
  "giveUpTime (commandSucceeded c s) = giveUpTime s"
  "lastCommandCompleted (commandSucceeded c s) = lastCommandCompleted s"
  "online (commandSucceeded c s) = online s"
  by (simp_all add: commandSucceeded_def resolve_def)

lemma fields_commandFailed:
  "failureCount (commandFailed c s) = failureCount s"
  "statusQueryInProgress (commandFailed c s) = statusQueryInProgress s"
  "giveUpTime (commandFailed c s) = giveUpTime s"
  "lastCommandCompleted (commandFailed c s) = lastCommandCompleted s"
  "online (commandFailed c s) = online s"
  by (simp_all add: commandFailed_def resolve_def)

lemma fields_interval:
  "failureCount (interval c t s) = failureCount s"
  "statusQueryInProgress (interval c t s) = statusQueryInProgress s"
  "giveUpTime (interval c t s) = giveUpTime s"
  "lastCommandCompleted (interval c t s) = lastCommandCompleted s"
  "online (interval c t s) = online s"
  by (simp_all add: interval_def fetchStatus_def postCommands_def resolve_def)

lemma fields_pollingTick:
  "failureCount (pollingTick c now s) = failureCount s"
  "statusQueryInProgress (pollingTick c now s) = statusQueryInProgress s"
  "giveUpTime (pollingTick c now s) = giveUpTime s"
  "lastCommandCompleted (pollingTick c now s) = lastCommandCompleted s"
  "online (pollingTick c now s) = online s"
  by (simp_all add: pollingTick_def split: tick.splits)

lemma fields_probeSucceeded:
  "failureCount (probeSucceeded c b s) = (if b then 0 else failureCount s)"
  "statusQueryInProgress (probeSucceeded c b s) = statusQueryInProgress s"
  "giveUpTime (probeSucceeded c b s) = (if b then 0 else giveUpTime s)"
  "lastCommandCompleted (probeSucceeded c b s) = lastCommandCompleted s"
  "online (probeSucceeded c b s) = (b \<or> online s)"
  by (simp_all add: probeSucceeded_def Let_def)

lemma fields_health:
  "failureCount (healthChecked b s) = failureCount s"
  "statusQueryInProgress (healthChecked b s) = statusQueryInProgress s"
  "giveUpTime (healthChecked b s) = giveUpTime s"
  "lastCommandCompleted (healthChecked b s) = lastCommandCompleted s"
  "failureCount (healthCheckFailed s) = failureCount s"
  "statusQueryInProgress (healthCheckFailed s) = statusQueryInProgress s"
  "giveUpTime (healthCheckFailed s) = giveUpTime s"
  "lastCommandCompleted (healthCheckFailed s) = lastCommandCompleted s"
  by (simp_all add: healthChecked_def healthCheckFailed_def)

lemma fetchers_forceNextStatusRefresh:
  "fetchers (forceNextStatusRefresh s) = fetchers s"
  by (simp add: fetchers_def forceNextStatusRefresh_def)

lemma fields_forceNextStatusRefresh:
  "failureCount (forceNextStatusRefresh s) = failureCount s"
  "statusQueryInProgress (forceNextStatusRefresh s) = statusQueryInProgress s"
  "giveUpTime (forceNextStatusRefresh s) = giveUpTime s"
  "lastCommandCompleted (forceNextStatusRefresh s) = lastCommandCompleted s"
  "online (forceNextStatusRefresh s) = online s"
  by (simp_all add: forceNextStatusRefresh_def)

lemmas fetchers_simps = fetchers_fetchStatus fetchers_postCommands fetchers_statusSucceeded
  fetchers_statusFailed fetchers_refreshStatus fetchers_sendCommands fetchers_commandSucceeded
  fetchers_commandFailed fetchers_probeSucceeded fetchers_pollingTick fetchers_health
  fetchers_interval fetchers_del fetchers_forceNextStatusRefresh

lemmas fields_simps = fields_refreshStatus fields_fetchStatus fields_postCommands
  fields_sendCommands fields_statusSucceeded fields_statusFailed fields_commandSucceeded
  fields_commandFailed fields_interval fields_pollingTick fields_probeSucceeded fields_health
  fields_forceNextStatusRefresh

lemma queryInv_step:
  assumes "queryInv s" and "step e s = Some s'"
  shows "queryInv s'"
proof (cases e)
  case (RefreshStatus c now)
  then have s': "s' = refreshStatus c now s" and fr: "tasks s c = None"
    using assms(2) by (auto split: if_splits)
  show ?thesis using assms(1) fetchers_fresh [OF fr] unfolding queryInv_def s'
    by (auto simp: fetchers_simps fields_simps)
next
  case (StatusError c now)
  then have s': "s' = statusFailed c now s" and t: "tasks s c = Some FetchInFlight"
    using assms(2) by (auto split: if_splits)
  have "c \<in> fetchers s" using t by (auto simp: fetchers_def fetching_def)
  then show ?thesis using assms(1) unfolding queryInv_def s'
    by (auto simp: fetchers_simps fields_simps)
next
  case (StatusResponse c now present)
  then have s': "s' = statusSucceeded c now present s" and t: "tasks s c = Some FetchInFlight"
    using assms(2) by (auto split: if_splits)
  have "c \<in> fetchers s" using t by (auto simp: fetchers_def fetching_def)
  then show ?thesis using assms(1) unfolding queryInv_def s'
    by (auto simp: fetchers_simps fields_simps)
next
  case (Interval c)
  then obtain t where s': "s' = interval c t s" and t: "tasks s c = Some t"
    using assms(2) by (auto split: if_splits option.splits)
  show ?thesis using assms(1) t unfolding queryInv_def s'
    by (simp add: fetchers_simps fields_simps)
next
  case (Then c)
  then consider "s' = fetchStatus c s" "tasks s c = Some FetchStart"
    | "s' = postCommands c s" "tasks s c = Some CommandStart"
    using assms(2) by (auto split: if_splits)
  then show ?thesis
  proof cases
    case 1
    have "c \<in> fetchers s" using 1(2) by (auto simp: fetchers_def fetching_def)
    then show ?thesis using assms(1) unfolding queryInv_def 1(1)
      by (auto simp: fetchers_simps fields_simps)
  next
    case 2
    have "c \<notin> fetchers s" using 2(2) by (auto simp: fetchers_def fetching_def)
    then show ?thesis using assms(1) unfolding queryInv_def 2(1)
      by (auto simp: fetchers_simps fields_simps)
  qed
next
  case (PollingTick c now)
  then have s': "s' = pollingTick c now s" and fr: "tasks s c = None"
    using assms(2) by (auto split: if_splits)
  show ?thesis using assms(1) fr unfolding queryInv_def s'
    by (simp add: fetchers_simps fields_simps)
next
  case (SendCommands c)
  then have s': "s' = sendCommands c s" and fr: "tasks s c = None"
    using assms(2) by (auto split: if_splits)
  show ?thesis using assms(1) fetchers_fresh [OF fr] unfolding queryInv_def s'
    by (simp add: fetchers_simps fields_simps)
next
  case (CommandResponse c)
  then have s': "s' = commandSucceeded c s" and t: "tasks s c = Some CommandInFlight"
    using assms(2) by (auto split: if_splits)
  have "c \<notin> fetchers s" using t by (auto simp: fetchers_def fetching_def)
  then show ?thesis using assms(1) unfolding queryInv_def s'
    by (simp add: fetchers_simps fields_simps)
next
  case (CommandError c)
  then have s': "s' = commandFailed c s" and t: "tasks s c = Some CommandInFlight"
    using assms(2) by (auto split: if_splits)
  have "c \<notin> fetchers s" using t by (auto simp: fetchers_def fetching_def)
  then show ?thesis using assms(1) unfolding queryInv_def s'
    by (simp add: fetchers_simps fields_simps)
next
  case (ProbeResponse c b)
  then have s': "s' = probeSucceeded c b s" and t: "tasks s c = Some ProbeInFlight"
    using assms(2) by (auto split: if_splits)
  have "c \<notin> fetchers s" using t by (auto simp: fetchers_def fetching_def)
  then show ?thesis using assms(1) unfolding queryInv_def s'
    by (simp add: fetchers_simps fields_simps)
next
  case (ProbeError c)
  then have s': "s' = s\<lparr>tasks := (tasks s)(c := None)\<rparr>" and t: "tasks s c = Some ProbeInFlight"
    using assms(2) by (auto split: if_splits)
  have "c \<notin> fetchers s" using t by (auto simp: fetchers_def fetching_def)
  then show ?thesis using assms(1) unfolding queryInv_def s'
    by (simp add: fetchers_simps)
next
  case (HealthCheckResponse b)
  then have s': "s' = healthChecked b s" and t: "tasks s 0 = Some HealthCheck"
    using assms(2) by (auto split: if_splits)
  have "0 \<notin> fetchers s" using t by (auto simp: fetchers_def fetching_def)
  then show ?thesis using assms(1) unfolding queryInv_def s'
    by (simp add: fetchers_simps fields_simps)
next
  case HealthCheckError
  then have s': "s' = healthCheckFailed s" and t: "tasks s 0 = Some HealthCheck"
    using assms(2) by (auto split: if_splits)
  have "0 \<notin> fetchers s" using t by (auto simp: fetchers_def fetching_def)
  then show ?thesis using assms(1) unfolding queryInv_def s'
    by (simp add: fetchers_simps fields_simps)
next
  case ForceNextStatusRefresh
  then have s': "s' = forceNextStatusRefresh s"
    using assms(2) by simp
  show ?thesis using assms(1) unfolding queryInv_def s'
    by (simp add: fetchers_simps fields_simps)
qed

lemma queryInv_run:
  "queryInv s \<Longrightarrow> run es s = Some s' \<Longrightarrow> queryInv s'"
  by (induction es arbitrary: s) (auto split: option.splits dest: queryInv_step)


subsection \<open>What each step does to the fields a status call reads\<close>








lemma statusGets_tasks_update [simp]:
  "statusGets (s\<lparr>tasks := m\<rparr>) = statusGets s"
  by (simp add: statusGets_def)








lemma flier_is_fetcher: "flying s \<subseteq> fetchers s"
  by (auto simp: flying_def fetchers_def fetching_def)











lemma queryInv_reachable:
  "run es (newAccessory ids) = Some s \<Longrightarrow> queryInv s"
  by (rule queryInv_run [OF queryInv_new])

subsection \<open>Status refresh: cache and waiting callers\<close>

lemma waiter_makes_no_call:
  assumes "tasks s c = Some StatusWaiter" and "step (Interval c) s = Some s'"
  shows "remote s' = remote s"
  using assms by (auto simp: interval_def resolve_def split: if_splits)

lemma cached_status_makes_no_call:
  assumes "now - deviceStatusTimestamp s \<le> 5000" and "tasks s c = None"
  shows "step (RefreshStatus c now) s = Some (s\<lparr>resolved := resolved s @ [(c, True)]\<rparr>)"
  using assms by (simp add: refreshStatus_def resolve_def)




text \<open>
  The same happens after a successful status call when \<open>forceNextStatusRefresh()\<close> has
  been called before the second \<open>refreshStatus\<close> call, as the air conditioner service
  does before every read.
\<close>

lemma forced_refresh_fetches_again:
  "map_option statusGets (run refreshThenForced (newAccessory [''main''])) = Some 2"
  by (simp add: refreshThenForced_def device_defs statusGets_def)

text \<open>
  The waiting caller reads \<open>lastStatusResult\<close> at its own timer tick. When another
  query has started in the meantime it goes on waiting and gets the result of the later
  query: here the query it found in progress failed, and it resolves to \<open>true\<close>.
\<close>

lemma waiter_gets_later_result:
  "map_option resolved (run waiterOvertaken (newAccessory [''main'']))
     = Some [(1, False), (3, True), (2, True)]
   \<and> map_option statusGets (run waiterOvertaken (newAccessory [''main''])) = Some 2"
  by (simp add: waiterOvertaken_def device_defs statusGets_def)

subsection \<open>Status failures and the online flag\<close>

lemma failure_counter_bounded:
  assumes "run es (newAccessory ids) = Some s"
  shows "failureCount s \<le> 1 \<and> giveUpTime s = 0"
  using queryInv_reachable [OF assms] by (simp add: queryInv_def)

lemma statusFailed_keeps_online:
  assumes "queryInv s" and "step (StatusError c now) s = Some s'"
  shows "online s' = online s \<and> failureCount s' = 1"
proof -
  have s': "s' = statusFailed c now s" and t: "tasks s c = Some FetchInFlight"
    using assms(2) by (auto split: if_splits)
  have "c \<in> fetchers s" using t by (auto simp: fetchers_def fetching_def)
  then have "failureCount s = 0" using assms(1) by (auto simp: queryInv_def)
  then show ?thesis by (simp add: s' fields_simps)
qed

text \<open>
  C3 against the code: \<open>refreshStatus\<close> sets \<open>failureCount\<close> to 0 each time it starts a
  status query, so a failure always counts from 0 to 1 and the threshold of 5 is never
  reached. After six failed queries in a row the device is still online, the counter is
  1 and no give-up time has been recorded.
\<close>

theorem status_failures_never_offline:
  "map_option online (run sixFailures (newAccessory [''main''])) = Some True
   \<and> map_option failureCount (run sixFailures (newAccessory [''main''])) = Some 1
   \<and> map_option giveUpTime (run sixFailures (newAccessory [''main''])) = Some 0"
  by (simp add: sixFailures_def device_defs)

subsection \<open>Commands\<close>

text \<open>
  C4 against the code: \<open>waitFor\<close> tests \<open>commandInProgress\<close> at the call, but the flag is
  only set in the \<open>then\<close> callback, which runs after the calling code has finished. Two
  \<open>sendCommands\<close> calls made one after the other both find the flag clear, and both
  POSTs are in flight together. In the same way a \<open>refreshStatus\<close> call made right after
  a \<open>sendCommands\<close> call starts its remote status call while the command is in flight.
\<close>

theorem commands_not_serialized:
  "map_option remote (run twoCommands (newAccessory [''main'']))
     = Some [HealthGet 0, CommandPost 1, CommandPost 2]
   \<and> map_option (commandsInFlight \<circ> remote) (run twoCommands (newAccessory [''main'']))
     = Some [1, 2]
   \<and> map_option remote (run commandThenRefresh (newAccessory [''main'']))
     = Some [HealthGet 0, CommandPost 1, StatusGet 2]
   \<and> map_option commandInProgress (run commandThenRefresh (newAccessory [''main'']))
     = Some True"
  by (simp add: twoCommands_def commandThenRefresh_def device_defs commandsInFlight_def)

text \<open>
  Where the flag does its work: a call that finds a command in progress starts nothing,
  at the call and at every timer tick while the flag is set, for a command and for a
  status query alike.
\<close>

lemma command_waits_while_in_progress:
  assumes "commandInProgress s" and "tasks s c = None"
  shows "map_option remote (run [SendCommands c, Interval c] s) = Some (remote s)"
  using assms by (simp add: sendCommands_def waitFor_def interval_def)

lemma fetch_waits_while_command:
  assumes "commandInProgress s" and "tasks s c = None"
    and "\<not> statusQueryInProgress s" and "now - deviceStatusTimestamp s > 5000"
  shows "map_option remote (run [RefreshStatus c now, Interval c] s) = Some (remote s)"
  using assms by (simp add: refreshStatus_def waitFor_def interval_def Let_def)

text \<open>
  \<open>sendCommands\<close> itself never reads the \<open>online\<close> flag. Whatever the flag says, a call
  made while no command is in progress starts the POST, resolves to \<open>true\<close> when the
  POST succeeds and to \<open>false\<close> when it fails, and leaves the flag as it was.
\<close>

lemma sendCommands_ignores_online:
  assumes "tasks s c = None" and "\<not> commandInProgress s"
  shows "map_option remote (run [SendCommands c, Then c] s) = Some (remote s @ [CommandPost c])
    \<and> map_option resolved (run [SendCommands c, Then c, CommandResponse c] s)
          = Some (resolved s @ [(c, True)])
    \<and> map_option resolved (run [SendCommands c, Then c, CommandError c] s)
          = Some (resolved s @ [(c, False)])
    \<and> map_option isOnline (run [SendCommands c, Then c, CommandResponse c] s)
          = Some (isOnline s)
    \<and> map_option isOnline (run [SendCommands c, Then c, CommandError c] s)
          = Some (isOnline s)"
  using assms by (simp add: device_defs isOnline_def)

text \<open>
  The test for an offline device is in the service that sends the commands, and it is
  never taken: the property it reads is the method, not the flag.
\<close>

lemma sendCommandsOrFail_never_refuses:
  "sendCommandsOrFail c s = Inr (sendCommands c s)"
  by (simp add: sendCommandsOrFail_def isOnlineProperty_def)

text \<open>
  C8 against the code: on a device that the health check reported offline, the
  service's \<open>sendCommandsOrFail\<close> throws nothing and goes on to \<open>sendCommands\<close>, whose
  callback starts the remote POST. Only a POST that fails makes it throw.
\<close>

theorem offline_command_not_refused:
  "map_option isOnline (run [HealthCheckResponse False] (newAccessory [''main'']))
     = Some False
   \<and> map_option (sendCommandsOrFail 1) (run [HealthCheckResponse False] (newAccessory [''main'']))
     = map_option Inr (run [HealthCheckResponse False, SendCommands 1] (newAccessory [''main'']))
   \<and> map_option remote (run commandWhileOffline (newAccessory [''main'']))
     = Some [HealthGet 0, CommandPost 1]
   \<and> sendCommandsOrFailSettled False = Some SERVICE_COMMUNICATION_FAILURE
   \<and> sendCommandsOrFailSettled True = None"
  by (simp add: commandWhileOffline_def device_defs isOnline_def sendCommandsOrFail_def
        isOnlineProperty_def sendCommandsOrFailSettled_def)

subsection \<open>Polling\<close>

lemma lastCommandCompleted_never_set:
  assumes "run es (newAccessory ids) = Some s"
  shows "lastCommandCompleted s = 0"
  using queryInv_reachable [OF assms] by (simp add: queryInv_def)

lemma tick_skipped_iff:
  assumes "run es (newAccessory ids) = Some s" and "20000 \<le> now"
  shows "pollTick now s = Skipped \<longleftrightarrow> commandInProgress s"
  using lastCommandCompleted_never_set [OF assms(1)] assms(2)
  by (simp add: pollTick_def)

lemma webhook_no_polling:
  assumes "WebhookToken config = Some token" and "token \<noteq> []"
  shows "startPollingState config pollSeconds jitter = None"
  using assms by (simp add: startPollingState_def)

lemma tick_skipped_while_command:
  "commandInProgress s \<Longrightarrow> pollingTick c now s = s"
  by (simp add: pollingTick_def pollTick_def)

text \<open>
  C9 against the code: nothing ever assigns \<open>lastCommandCompleted\<close>, so the tick compares
  the clock with 0 and the 20 second rule never skips a tick. After a command has been
  sent and acknowledged the field is still 0, and a tick one second later calls
  \<open>getValue()\<close>.
\<close>

theorem tick_after_command_polls:
  "map_option lastCommandCompleted (run commandCompleted (newAccessory [''main''])) = Some 0
   \<and> map_option (pollTick 1700000001000) (run commandCompleted (newAccessory [''main'']))
      = Some Polled
   \<and> map_option polled
        (run (commandCompleted @ [PollingTick 2 1700000001000]) (newAccessory [''main'']))
      = Some [2]"
  by (simp add: commandCompleted_def device_defs)

subsection \<open>The health probe of an offline device\<close>

text \<open>
  What the probe does for a device that is offline with a give-up time on record, a
  state the status failures above never produce: more than ten minutes after the
  give-up time a tick starts the probe, and an \<open>ONLINE\<close> answer puts the device back
  online with the counter and the give-up time at 0. At ten minutes exactly the tick
  does nothing.
\<close>

lemma probe_recovers_after_cooldown:
  assumes "\<not> online s" and "giveUpTime s > 0" and "now - giveUpTime s > 600000"
    and "\<not> commandInProgress s" and "now - lastCommandCompleted s \<ge> 20000"
    and "tasks s c = None"
  shows "map_option online (run [PollingTick c now, ProbeResponse c True] s) = Some True
    \<and> map_option failureCount (run [PollingTick c now, ProbeResponse c True] s) = Some 0
    \<and> map_option giveUpTime (run [PollingTick c now, ProbeResponse c True] s) = Some 0
    \<and> map_option remote (run [PollingTick c now, ProbeResponse c True] s)
        = Some (remote s @ [HealthGet c])"
  using assms by (simp add: pollingTick_def pollTick_def probeSucceeded_def)

lemma probe_not_at_ten_minutes:
  assumes "\<not> online s" and "giveUpTime s > 0" and "now - giveUpTime s = 600000"
    and "\<not> commandInProgress s" and "now - lastCommandCompleted s \<ge> 20000"
  shows "pollTick now s = Idle"
  using assms by (simp add: pollTick_def)

section \<open>Properties of tokens and start-up\<close>

lemmas auth_defs = getAccessToken_def getRefreshToken_def isTokenValid_def
  isRefreshTokenValid_def REFRESH_BEFORE_EXPIRY_def saveTokens_def updateTokens_def
  clearTokens_def startAuthFlow_def handleCrashLoopRecovery_def refreshTokens_def
  refreshReturned_def checkAndRefreshTokens_def monitorRefreshed_def
  monitorRefreshFailed_def unauthorized_def interceptorRefreshed_def
  interceptorRefreshFailed_def initialize_def initializeRefreshed_def
  initializeRefreshFailed_def Let_def

lemmas sample_defs = sampleAuth_def sampleToken_def sampleResponse_def
  sampleCrashConfig_def sampleCrashes_def

text \<open>
  C6, as the code has it: nothing keeps a second refresh from starting while one is in
  flight. A 401 on a request that has not been retried starts a token-exchange call of
  its own whatever is pending, and so does a monitor tick that finds the access token
  within the margin. The only guard is per request: a request already marked \<open>_retry\<close>
  starts none.
\<close>

theorem refresh_not_deduplicated:
  "(getRefreshToken a = Some rt \<and> request \<notin> set (retried a) \<longrightarrow>
      pending (unauthorized request a) = pending a @ [Interceptor request]
      \<and> exchanges (unauthorized request a)
          = exchanges a @ [ExchangeStart (Interceptor request) rt])
   \<and> (request \<in> set (retried a) \<longrightarrow>
      pending (unauthorized request a) = pending a
      \<and> exchanges (unauthorized request a) = exchanges a)
   \<and> (tokenData a = Some t \<and> refresh_token t \<noteq> []
        \<and> expires_at t - now \<le> REFRESH_BEFORE_EXPIRY \<longrightarrow>
      pending (checkAndRefreshTokens now a) = pending a @ [Monitor]
      \<and> exchanges (checkAndRefreshTokens now a)
          = exchanges a @ [ExchangeStart Monitor (refresh_token t)])"
  by (auto simp: auth_defs split: option.splits)

theorem refresh_not_deduplicated_witness:
  "map_option pending (authRun [MonitorTick 1699999900000, Unauthorized 1] sampleAuth)
     = Some [Monitor, Interceptor 1]
   \<and> map_option pending (authRun [Unauthorized 1, Unauthorized 1] sampleAuth)
     = Some [Interceptor 1]"
proof -
  let ?a1 = "checkAndRefreshTokens 1699999900000 sampleAuth"
  let ?b1 = "unauthorized 1 sampleAuth"
  have m: "pending ?a1 = [Monitor]"
    using refresh_not_deduplicated [of sampleAuth _ _ sampleToken 1699999900000]
    by (simp add: sample_defs REFRESH_BEFORE_EXPIRY_def)
  have rt: "getRefreshToken ?a1 = Some ''refresh-1''" "retried ?a1 = []"
    by (simp_all add: auth_defs sample_defs)
  have i: "pending (unauthorized 1 ?a1) = pending ?a1 @ [Interceptor 1]"
    using refresh_not_deduplicated [of ?a1 "''refresh-1''" 1] rt by simp
  have b: "pending ?b1 = [Interceptor 1]"
    using refresh_not_deduplicated [of sampleAuth "''refresh-1''" 1]
    by (simp add: auth_defs sample_defs)
  have r: "1 \<in> set (retried ?b1)"
    by (simp add: auth_defs sample_defs)
  have bb: "pending (unauthorized 1 ?b1) = pending ?b1"
    using refresh_not_deduplicated [of ?b1 _ 1] r by simp
  have t: "refreshTimer sampleAuth" by (simp add: sample_defs)
  show ?thesis using m i b bb t by simp
qed

text \<open>
  C6 as stated fails: two requests that come back with 401 each start a token-exchange
  call, and both calls are in flight together.
\<close>

theorem concurrent_refresh_counterexample:
  "map_option pending (authRun [Unauthorized 1, Unauthorized 2] sampleAuth)
     = Some [Interceptor 1, Interceptor 2]"
  by (simp add: auth_defs sample_defs)

text \<open>
  C7, as the code has it, with \<open>isCrashLoopDetected\<close> as the spec describes it. When the
  pruned window holds at least the configured number of entries, the crash loop is
  detected and the handler takes the recovery path and returns before \<open>initialize()\<close>:
  \<open>startAuthFlow()\<close> is called once, no token exchange is started and \<open>initialize()\<close>
  returns nothing. If the token file exists and its removal goes through, the file is
  gone, the in-memory token data is absent and the monitor's timer is cleared. If the
  removal fails, \<open>clearTokens\<close> throws, the token data and the file stay as they were,
  and the authentication flow is started all the same.
\<close>

theorem crash_loop_recovery:
  "crash_count config \<le> length (prunedWindow config now records) \<longrightarrow>
     isCrashLoopDetected config now records
     \<and> snd (didFinishLaunching config now records removeOk a) = Recovery
     \<and> authFlows (fst (didFinishLaunching config now records removeOk a)) = authFlows a + 1
     \<and> pending (fst (didFinishLaunching config now records removeOk a)) = pending a
     \<and> authFlowStarted (fst (didFinishLaunching config now records removeOk a))
         = authFlowStarted a
     \<and> (tokenFile a \<noteq> None \<and> removeOk \<longrightarrow>
          tokenData (fst (didFinishLaunching config now records removeOk a)) = None
          \<and> tokenFile (fst (didFinishLaunching config now records removeOk a)) = None
          \<and> \<not> refreshTimer (fst (didFinishLaunching config now records removeOk a)))
     \<and> (tokenFile a \<noteq> None \<and> \<not> removeOk \<longrightarrow>
          tokenData (fst (didFinishLaunching config now records removeOk a)) = tokenData a
          \<and> tokenFile (fst (didFinishLaunching config now records removeOk a)) = tokenFile a)"
  by (auto simp: didFinishLaunching_def isCrashLoopDetected_def handleCrashLoopRecovery_def
        clearTokens_def startAuthFlow_def)

theorem crash_loop_recovery_witness:
  "isCrashLoopDetected sampleCrashConfig 1700000130000 sampleCrashes
   \<and> snd (didFinishLaunching sampleCrashConfig 1700000130000 sampleCrashes True sampleAuth)
       = Recovery
   \<and> tokenData (fst (didFinishLaunching sampleCrashConfig 1700000130000 sampleCrashes True
        sampleAuth)) = None
   \<and> tokenFile (fst (didFinishLaunching sampleCrashConfig 1700000130000 sampleCrashes True
        sampleAuth)) = None
   \<and> authFlows (fst (didFinishLaunching sampleCrashConfig 1700000130000 sampleCrashes True
        sampleAuth)) = 1"
proof -
  have w: "crash_count sampleCrashConfig
      \<le> length (prunedWindow sampleCrashConfig 1700000130000 sampleCrashes)"
    by (simp add: prunedWindow_def sample_defs)
  have f: "tokenFile sampleAuth \<noteq> None" "authFlows sampleAuth = 0"
    by (simp_all add: sample_defs)
  show ?thesis
    using crash_loop_recovery [of sampleCrashConfig 1700000130000 sampleCrashes True sampleAuth]
      w f
    by simp
qed

text \<open>
  C7 as stated fails when the token file cannot be removed: the crash loop is detected
  and the authentication flow is started, but the token data is still in memory and
  the file is still there.
\<close>

theorem crash_loop_keeps_tokens_counterexample:
  "isCrashLoopDetected sampleCrashConfig 1700000130000 sampleCrashes
   \<and> tokenData (fst (didFinishLaunching sampleCrashConfig 1700000130000 sampleCrashes False
        sampleAuth)) = Some sampleToken
   \<and> tokenFile (fst (didFinishLaunching sampleCrashConfig 1700000130000 sampleCrashes False
        sampleAuth)) = Some sampleToken"
  by (simp add: didFinishLaunching_def isCrashLoopDetected_def prunedWindow_def
        handleCrashLoopRecovery_def clearTokens_def startAuthFlow_def sampleAuth_def
        sampleCrashConfig_def sampleCrashes_def)

lemma monitor_refresh_updates_token:
  "map_option getAccessToken
     (authRun [MonitorTick 1699999900000, MonitorResponse 1699999900500 True sampleResponse]
        sampleAuth)
   = Some (Some ''access-2'')"
  by (simp add: auth_defs sample_defs)

text \<open>
  C10. \<open>refreshTokens\<close> leaves the token data alone, when it starts the call and when
  the call returns. \<open>initialize()\<close>, when it refreshes (the access token is missing or
  within the margin, the refresh token is valid and present), awaits the call and drops
  the result: token data, token file and \<open>getAccessToken()\<close> are as before, and it
  returns \<open>false\<close>. The 401 interceptor does the same for a request not yet retried,
  and then sends the request again with \<open>getAccessToken()\<close>, which is the old token.
\<close>

theorem refresh_result_discarded:
  "(refreshTokens who refreshToken a = Some a' \<longrightarrow> tokenData a' = tokenData a)
   \<and> tokenData (refreshReturned who a) = tokenData a
   \<and> ((getAccessToken a = None \<or> \<not> isTokenValid now a) \<and> isRefreshTokenValid now a
        \<and> getRefreshToken a = Some rt \<longrightarrow>
       map_option tokenData (authRun [Initialize now, InitializeResponse r] a)
         = Some (tokenData a)
       \<and> map_option tokenFile (authRun [Initialize now, InitializeResponse r] a)
         = Some (tokenFile a)
       \<and> map_option getAccessToken (authRun [Initialize now, InitializeResponse r] a)
         = Some (getAccessToken a)
       \<and> map_option authFlowStarted (authRun [Initialize now, InitializeResponse r] a)
         = Some (Some False)
       \<and> map_option exchanges (authRun [Initialize now, InitializeResponse r] a)
         = Some (exchanges a @ [ExchangeStart Startup rt, ExchangeEnd Startup]))
   \<and> (getRefreshToken a = Some rt \<and> request \<notin> set (retried a) \<longrightarrow>
       map_option tokenData (authRun [Unauthorized request, InterceptorResponse request r] a)
         = Some (tokenData a)
       \<and> map_option tokenFile (authRun [Unauthorized request, InterceptorResponse request r] a)
         = Some (tokenFile a)
       \<and> map_option getAccessToken
           (authRun [Unauthorized request, InterceptorResponse request r] a)
         = Some (getAccessToken a)
       \<and> map_option exchanges (authRun [Unauthorized request, InterceptorResponse request r] a)
         = Some (exchanges a
             @ [ExchangeStart (Interceptor request) rt, ExchangeEnd (Interceptor request)])
       \<and> (getAccessToken a = Some old \<longrightarrow>
            map_option retries
              (authRun [Unauthorized request, InterceptorResponse request r] a)
            = Some (retries a @ [(request, old)])))"
proof -
  have 1: "refreshTokens who refreshToken a = Some a' \<longrightarrow> tokenData a' = tokenData a"
    by (auto simp: refreshTokens_def split: option.splits)
  have 2: "tokenData (refreshReturned who a) = tokenData a"
    by (simp add: refreshReturned_def)
  have 3: "(getAccessToken a = None \<or> \<not> isTokenValid now a) \<and> isRefreshTokenValid now a
        \<and> getRefreshToken a = Some rt \<longrightarrow>
       map_option tokenData (authRun [Initialize now, InitializeResponse r] a)
         = Some (tokenData a)
       \<and> map_option tokenFile (authRun [Initialize now, InitializeResponse r] a)
         = Some (tokenFile a)
       \<and> map_option getAccessToken (authRun [Initialize now, InitializeResponse r] a)
         = Some (getAccessToken a)
       \<and> map_option authFlowStarted (authRun [Initialize now, InitializeResponse r] a)
         = Some (Some False)
       \<and> map_option exchanges (authRun [Initialize now, InitializeResponse r] a)
         = Some (exchanges a @ [ExchangeStart Startup rt, ExchangeEnd Startup])"
    by (auto simp: initialize_def initializeRefreshed_def refreshTokens_def
          refreshReturned_def getAccessToken_def)
  have 4: "getRefreshToken a = Some rt \<and> request \<notin> set (retried a) \<longrightarrow>
       map_option tokenData (authRun [Unauthorized request, InterceptorResponse request r] a)
         = Some (tokenData a)
       \<and> map_option tokenFile (authRun [Unauthorized request, InterceptorResponse request r] a)
         = Some (tokenFile a)
       \<and> map_option getAccessToken
           (authRun [Unauthorized request, InterceptorResponse request r] a)
         = Some (getAccessToken a)
       \<and> map_option exchanges (authRun [Unauthorized request, InterceptorResponse request r] a)
         = Some (exchanges a
             @ [ExchangeStart (Interceptor request) rt, ExchangeEnd (Interceptor request)])
       \<and> (getAccessToken a = Some old \<longrightarrow>
            map_option retries
              (authRun [Unauthorized request, InterceptorResponse request r] a)
            = Some (retries a @ [(request, old)]))"
    by (auto simp: unauthorized_def interceptorRefreshed_def refreshTokens_def
          refreshReturned_def getAccessToken_def getRefreshToken_def Let_def
          split: option.splits)
  show ?thesis using 1 2 3 4 by blast
qed

theorem refresh_result_discarded_witness:
  "map_option getAccessToken
     (authRun [Initialize 1699999900000, InitializeResponse sampleResponse] sampleAuth)
     = Some (Some ''access-1'')
   \<and> map_option getAccessToken
     (authRun [Unauthorized 1, InterceptorResponse 1 sampleResponse] sampleAuth)
     = Some (Some ''access-1'')
   \<and> map_option retries
     (authRun [Unauthorized 1, InterceptorResponse 1 sampleResponse] sampleAuth)
     = Some [(1, ''access-1'')]"
proof -
  have h: "\<not> isTokenValid 1699999900000 sampleAuth"
    "isRefreshTokenValid 1699999900000 sampleAuth"
    "getRefreshToken sampleAuth = Some ''refresh-1''"
    "getAccessToken sampleAuth = Some ''access-1''"
    "1 \<notin> set (retried sampleAuth)" "retries sampleAuth = []"
    by (simp_all add: auth_defs sample_defs)
  show ?thesis
    using refresh_result_discarded [of Startup "Some ''refresh-1''" sampleAuth
        "refreshReturned Startup sampleAuth" 1699999900000 "''refresh-1''" sampleResponse 1
        "''access-1''"] h
    by simp
qed

end
